theory Spec2Isabelle
  imports Complex_Main
begin

section \<open>Excel data sync service: values, schema fields and collaborators\<close>

text \<open>
  The development embeds the Excel data sync service (\<^verbatim>\<open>src/unnamed/part_000\<close>):
  \<^verbatim>\<open>generateSemanticText\<close>, \<^verbatim>\<open>transformRecords\<close>, \<^verbatim>\<open>extractFkTargets\<close>,
  \<^verbatim>\<open>updateKnowledgeGraph\<close> and \<^verbatim>\<open>syncExcelData\<close>.

  The service is written against collaborators that live in other modules (schema
  queries, the embedding service, the vector client, the knowledge graph, the index
  service, the FK value extractor, the UUID builder, the file system and the XLSX
  reader). They are the fields of an environment record. A collaborator that is awaited
  takes the state of the outside world and returns a new one together with either a
  value (\<open>Inr\<close>) or the message of the error it throws (\<open>Inl\<close>).

  Every call of a collaborator that reads or writes the outside world, and every entry
  into \<^verbatim>\<open>syncExcelData\<close>, \<^verbatim>\<open>transformRecords\<close>, \<^verbatim>\<open>updateKnowledgeGraph\<close> and
  \<^verbatim>\<open>extractFkTargets\<close>, is appended to a trace, so that "performs no embedding call" is
  a statement about the trace. Console output and \<^verbatim>\<open>duration_ms\<close> (wall-clock time)
  are left out.
\<close>

subsection \<open>JavaScript values\<close>

text \<open>
  A cell value of type \<^verbatim>\<open>unknown\<close>. Numbers are integers here: fractional numbers and
  \<^verbatim>\<open>NaN\<close> are outside the model. An object is its list of own enumerable entries in
  insertion order. \<open>JFunction f\<close> is the built-in function named \<open>f\<close>; no cell holds
  one, but a property lookup can find one on the prototype.
\<close>

datatype jsval =
    JUndefined
  | JNull
  | JBool bool
  | JNum int
  | JStr string
  | JArr "jsval list"
  | JObj "(string \<times> jsval) list"
  | JFunction string

type_synonym jsrecord = "(string \<times> jsval) list"

text \<open>
  The members a plain object inherits from \<^verbatim>\<open>Object.prototype\<close>: eleven functions and
  the accessor \<^verbatim>\<open>__proto__\<close>, which reads as \<^verbatim>\<open>Object.prototype\<close> itself, an object
  without enumerable entries.
\<close>

definition object_prototype :: "string \<Rightarrow> jsval option" where
  "object_prototype =
     map_of
       [(''constructor'', JFunction ''Object''),
        (''toString'', JFunction ''toString''),
        (''toLocaleString'', JFunction ''toLocaleString''),
        (''valueOf'', JFunction ''valueOf''),
        (''hasOwnProperty'', JFunction ''hasOwnProperty''),
        (''isPrototypeOf'', JFunction ''isPrototypeOf''),
        (''propertyIsEnumerable'', JFunction ''propertyIsEnumerable''),
        (''__defineGetter__'', JFunction ''__defineGetter__''),
        (''__defineSetter__'', JFunction ''__defineSetter__''),
        (''__lookupGetter__'', JFunction ''__lookupGetter__''),
        (''__lookupSetter__'', JFunction ''__lookupSetter__''),
        (''__proto__'', JObj [])]"

text \<open>
  \<^verbatim>\<open>record[key]\<close>: the record's own entry, else the member inherited from
  \<^verbatim>\<open>Object.prototype\<close>, else \<^verbatim>\<open>undefined\<close>.
\<close>

definition rec_get :: "jsrecord \<Rightarrow> string \<Rightarrow> jsval" where
  "rec_get r k =
     (case map_of r k of
        Some v \<Rightarrow> v
      | None \<Rightarrow> (case object_prototype k of Some v \<Rightarrow> v | None \<Rightarrow> JUndefined))"

text \<open>Truthiness, as \<^verbatim>\<open>!x\<close> and \<^verbatim>\<open>x || y\<close> test it.\<close>

fun truthy :: "jsval \<Rightarrow> bool" where
  "truthy JUndefined = False"
| "truthy JNull = False"
| "truthy (JBool b) = b"
| "truthy (JNum n) = (n \<noteq> 0)"
| "truthy (JStr s) = (s \<noteq> [])"
| "truthy (JArr xs) = True"
| "truthy (JObj kvs) = True"
| "truthy (JFunction f) = True"

text \<open>Decimal digits of a natural number and of an integer.\<close>

definition digit_char :: "nat \<Rightarrow> char" where
  "digit_char d = ''0123456789'' ! d"

function show_nat :: "nat \<Rightarrow> string" where
  "show_nat n = (if n < 10 then [digit_char n] else show_nat (n div 10) @ [digit_char (n mod 10)])"
  by pat_completeness auto
termination
  by (relation "measure id") auto

declare show_nat.simps [simp del]

definition show_int :: "int \<Rightarrow> string" where
  "show_int i = (if i < 0 then CHR ''-'' # show_nat (nat (- i)) else show_nat (nat i))"

text \<open>\<^verbatim>\<open>Array.prototype.join\<close>.\<close>

fun join :: "string \<Rightarrow> string list \<Rightarrow> string" where
  "join sep [] = []"
| "join sep [x] = x"
| "join sep (x # y # ys) = x @ sep @ join sep (y # ys)"

text \<open>
  A number as template literals and \<^verbatim>\<open>String(n)\<close> render it. A safe integer (at most
  \<^verbatim>\<open>Number.MAX_SAFE_INTEGER\<close> in magnitude) renders as its decimal digits. Beyond that
  the rendering is the shortest digit string that reads back as the same double, in
  exponent form from \<open>10^21\<close> on; it is not computed here but taken as the parameter
  \<open>beyond\<close>.
\<close>

definition MAX_SAFE_INTEGER :: int where
  "MAX_SAFE_INTEGER = 9007199254740991"

definition number_to_string :: "(int \<Rightarrow> string) \<Rightarrow> int \<Rightarrow> string" where
  "number_to_string beyond i =
     (if - MAX_SAFE_INTEGER \<le> i \<and> i \<le> MAX_SAFE_INTEGER then show_int i else beyond i)"

text \<open>
  \<^verbatim>\<open>String(value)\<close>. An array renders its elements joined by commas, with \<^verbatim>\<open>null\<close>
  and \<^verbatim>\<open>undefined\<close> elements empty; a plain object renders as \<^verbatim>\<open>[object Object]\<close>; a
  built-in function renders as the engine prints native code.
\<close>

fun js_String :: "(int \<Rightarrow> string) \<Rightarrow> jsval \<Rightarrow> string" where
  "js_String beyond JUndefined = ''undefined''"
| "js_String beyond JNull = ''null''"
| "js_String beyond (JBool b) = (if b then ''true'' else ''false'')"
| "js_String beyond (JNum n) = number_to_string beyond n"
| "js_String beyond (JStr s) = s"
| "js_String beyond (JArr xs) =
     join '','' (map (\<lambda>x. if x = JNull \<or> x = JUndefined then [] else js_String beyond x) xs)"
| "js_String beyond (JObj kvs) = ''[object Object]''"
| "js_String beyond (JFunction f) = ''function '' @ f @ ''() { [native code] }''"

subsection \<open>Schema fields, FK extraction results, transformed records\<close>

text \<open>
  \<^verbatim>\<open>PipelineField\<close>, as far as the service reads it. The two FK target properties are
  optional in the source.
\<close>

record pipeline_field =
  field_id :: int
  field_name :: string
  field_label :: string
  field_type :: string
  fk_location_model :: "string option"
  fk_location_model_id :: "int option"

text \<open>The descriptor handed to \<^verbatim>\<open>extractFkValueBySchema\<close>.\<close>

record fk_descriptor =
  fd_field_id :: int
  fd_field_name :: string
  fd_field_type :: string

datatype fk_source = Scalar | Tuple | Expanded

record fk_result =
  fkId :: "int option"
  displayName :: "string option"
  source :: fk_source

text \<open>
  \<^verbatim>\<open>TransformedRecord\<close>. The record id is the raw cell (\<^verbatim>\<open>record['id'] as number\<close> is a
  compile-time cast only); the payload is an object used as a dictionary.
\<close>

record transformed_record =
  record_id :: jsval
  model_name :: string
  model_id :: int
  vector_text :: string
  payload :: "string \<rightharpoonup> jsval"

text \<open>\<^verbatim>\<open>PipelineDataPoint\<close>: id, embedding vector and payload.\<close>

record data_point =
  point_id :: string
  point_vector :: "real list"
  point_payload :: "string \<rightharpoonup> jsval"

text \<open>
  The argument of \<^verbatim>\<open>upsertRelationship\<close>. The two target properties are copied from
  the field with a non-null assertion, which checks nothing at run time.
\<close>

record relationship =
  source_model :: string
  source_model_id :: int
  rel_field_id :: int
  rel_field_name :: string
  rel_field_label :: string
  rel_field_type :: string
  target_model :: "string option"
  target_model_id :: "int option"
  edge_count :: nat
  unique_targets :: nat
  cascade_source :: string

text \<open>\<^verbatim>\<open>ExcelDataSyncOptions\<close> after destructuring with its defaults.\<close>

record sync_options =
  filePath :: "string option"
  skipCascade :: bool
  dryRun :: bool
  force :: bool

text \<open>\<^verbatim>\<open>ExcelDataSyncResult\<close> without \<^verbatim>\<open>duration_ms\<close>.\<close>

record sync_result =
  success :: bool
  res_model_name :: string
  res_model_id :: int
  file_path :: string
  records_read :: nat
  records_synced :: nat
  records_failed :: nat
  errors :: "string list"
  cascaded_models :: "(string \<times> nat) list option"

subsection \<open>The trace and the collaborators\<close>

datatype event =
    Enter_syncExcelData string sync_options
  | Call_modelExistsInSchema string
  | Call_getModelIdFromSchema string
  | Call_existsSync string
  | Call_readSheet string
  | Enter_transformRecords string
  | Call_getModelFieldsFromSchema string
  | Call_embedBatch "string list"
  | Call_upsertToUnifiedCollection "data_point list"
  | Enter_updateKnowledgeGraph string
  | Call_upsertRelationship relationship
  | Call_ensureModelIndexes string
  | Enter_extractFkTargets string
  | Call_getFkFieldsFromSchema string

record 'w state =
  world :: 'w
  trace :: "event list"

type_synonym ('w, 'a) collab = "'w \<Rightarrow> (string + 'a) \<times> 'w"

text \<open>
  The imported functions and the two constants of the module's environment.
  \<^verbatim>\<open>readSheet\<close> stands for \<^verbatim>\<open>XLSX.readFile\<close> followed by \<^verbatim>\<open>sheet_to_json\<close> on the
  first sheet. \<^verbatim>\<open>embedBatch\<close> is always called in mode \<^verbatim>\<open>'document'\<close>, which is left
  out. \<^verbatim>\<open>extractFkValueBySchema\<close> and \<^verbatim>\<open>buildDataUuidV2\<close> are synchronous and are taken
  as total functions. \<^verbatim>\<open>nowISO w idx\<close> is what \<^verbatim>\<open>new Date().toISOString()\<close>
  reads while the point at position \<open>idx\<close> of a batch is built in world \<open>w\<close>.
  \<^verbatim>\<open>unsafeNumberToString\<close> is the engine's rendering of numbers beyond the safe integers.
\<close>

record 'w env =
  DATA_DIR :: string
  path_join :: "string \<Rightarrow> string \<Rightarrow> string"
  existsSync :: "string \<Rightarrow> 'w \<Rightarrow> bool"
  readSheet :: "string \<Rightarrow> ('w, jsrecord list) collab"
  modelExistsInSchema :: "string \<Rightarrow> ('w, bool) collab"
  getModelIdFromSchema :: "string \<Rightarrow> ('w, int option) collab"
  getModelFieldsFromSchema :: "string \<Rightarrow> ('w, pipeline_field list option) collab"
  getFkFieldsFromSchema :: "string \<Rightarrow> ('w, pipeline_field list option) collab"
  embedBatch :: "string list \<Rightarrow> ('w, real list list) collab"
  upsertToUnifiedCollection :: "data_point list \<Rightarrow> ('w, unit) collab"
  upsertRelationship :: "relationship \<Rightarrow> ('w, unit) collab"
  ensureModelIndexes :: "string \<Rightarrow> pipeline_field list \<Rightarrow> ('w, nat) collab"
  extractFkValueBySchema :: "jsrecord \<Rightarrow> fk_descriptor \<Rightarrow> fk_result"
  buildDataUuidV2 :: "int \<Rightarrow> jsval \<Rightarrow> string"
  nowISO :: "'w \<Rightarrow> nat \<Rightarrow> string"
  unsafeNumberToString :: "int \<Rightarrow> string"

definition emit :: "event \<Rightarrow> 'w state \<Rightarrow> 'w state" where
  "emit e st = st\<lparr>trace := trace st @ [e]\<rparr>"

text \<open>An awaited call: it is recorded, then the collaborator runs on the world.\<close>

definition call :: "event \<Rightarrow> ('w, 'a) collab \<Rightarrow> 'w state \<Rightarrow> (string + 'a) \<times> 'w state" where
  "call e f st = (case f (world st) of (r, w') \<Rightarrow> (r, \<lparr>world = w', trace = trace st @ [e]\<rparr>))"

section \<open>The helper functions\<close>

subsection \<open>\<^verbatim>\<open>generateSemanticText\<close> (lines 133-182)\<close>

definition descriptor_of :: "pipeline_field \<Rightarrow> fk_descriptor" where
  "descriptor_of field =
     \<lparr>fd_field_id = field_id field, fd_field_name = field_name field,
      fd_field_type = field_type field\<rparr>"

text \<open>\<^verbatim>\<open>if (fkResult.displayName)\<close>: defined and not the empty string.\<close>

definition truthy_string :: "string option \<Rightarrow> bool" where
  "truthy_string s = (case s of None \<Rightarrow> False | Some t \<Rightarrow> t \<noteq> [])"

text \<open>The value of \<^verbatim>\<open>displayValue\<close> for one field (lines 155-176).\<close>

definition displayValue :: "'w env \<Rightarrow> jsrecord \<Rightarrow> pipeline_field \<Rightarrow> jsval \<Rightarrow> string" where
  "displayValue env record field val =
     (if field_type field = ''many2one'' then
        (let fkResult = extractFkValueBySchema env record (descriptor_of field) in
         case fkId fkResult of
           Some n \<Rightarrow>
             (if truthy_string (displayName fkResult)
              then the (displayName fkResult) @ '' (id: ''
                     @ number_to_string (unsafeNumberToString env) n @ '')''
              else ''id: '' @ number_to_string (unsafeNumberToString env) n)
         | None \<Rightarrow> js_String (unsafeNumberToString env) val)
      else js_String (unsafeNumberToString env) val)"

text \<open>\<^verbatim>\<open>field.field_label || field.field_name\<close>.\<close>

definition label_or_name :: "pipeline_field \<Rightarrow> string" where
  "label_or_name field = (if field_label field \<noteq> [] then field_label field else field_name field)"

text \<open>The loop over the schema fields (lines 148-179), pushing onto \<^verbatim>\<open>parts\<close>.\<close>

fun semantic_parts :: "'w env \<Rightarrow> jsrecord \<Rightarrow> pipeline_field list \<Rightarrow> string list \<Rightarrow> string list" where
  "semantic_parts env record [] parts = parts"
| "semantic_parts env record (field # rest) parts =
     (if field_name field = ''id'' then semantic_parts env record rest parts
      else
        (let val = rec_get record (field_name field) in
         if val = JNull \<or> val = JUndefined \<or> val = JStr [] then semantic_parts env record rest parts
         else semantic_parts env record rest
                (parts @ [label_or_name field @ '' - '' @ displayValue env record field val])))"

definition generateSemanticText :: "'w env \<Rightarrow> jsrecord \<Rightarrow> string \<Rightarrow> pipeline_field list \<Rightarrow> string" where
  "generateSemanticText env record modelName schemaFields =
     join '', ''
       (semantic_parts env record schemaFields
          [''In model '' @ modelName,
           ''record '' @ js_String (unsafeNumberToString env) (rec_get record ''id'')])"

subsection \<open>\<^verbatim>\<open>transformRecords\<close> (lines 187-252)\<close>

text \<open>
  Lines 212-217: every entry of the record whose value is not null or undefined is
  assigned to \<^verbatim>\<open>payload\<close>, a plain object. The map is the own entries of \<^verbatim>\<open>payload\<close>,
  which are what the spread of line 519 copies. An assignment to the key \<^verbatim>\<open>__proto__\<close>
  runs the setter inherited from \<^verbatim>\<open>Object.prototype\<close> and adds no own entry.
\<close>

fun copy_entries :: "jsrecord \<Rightarrow> (string \<rightharpoonup> jsval) \<Rightarrow> (string \<rightharpoonup> jsval)" where
  "copy_entries [] pl = pl"
| "copy_entries ((key, val) # rest) pl =
     (if val \<noteq> JNull \<and> val \<noteq> JUndefined then
        (if key = ''__proto__'' then copy_entries rest pl
         else copy_entries rest (pl(key \<mapsto> val)))
      else copy_entries rest pl)"

text \<open>\<^verbatim>\<open>field.fk_location_model_id\<close> as a condition: defined and not zero.\<close>

definition truthy_id :: "int option \<Rightarrow> bool" where
  "truthy_id i = (case i of None \<Rightarrow> False | Some n \<Rightarrow> n \<noteq> 0)"

text \<open>Lines 220-240: the derived FK entries of the payload.\<close>

fun fk_entries :: "'w env \<Rightarrow> jsrecord \<Rightarrow> pipeline_field list \<Rightarrow> (string \<rightharpoonup> jsval) \<Rightarrow> (string \<rightharpoonup> jsval)" where
  "fk_entries env record [] pl = pl"
| "fk_entries env record (field # rest) pl =
     (if field_type field = ''many2one'' \<and> truthy_id (fk_location_model_id field) then
        (let fkResult = extractFkValueBySchema env record (descriptor_of field) in
         case fkId fkResult of
           Some n \<Rightarrow>
             (let fkQdrantId = buildDataUuidV2 env (the (fk_location_model_id field)) (JNum n);
                  pl1 = pl(field_name field @ ''_qdrant'' \<mapsto> JStr fkQdrantId);
                  pl2 = (if source fkResult = Scalar
                              then pl1(field_name field @ ''_id'' \<mapsto> JNum n) else pl1)
              in fk_entries env record rest pl2)
         | None \<Rightarrow> fk_entries env record rest pl)
      else fk_entries env record rest pl)"

text \<open>The body of the loop for a record that has an id (lines 208-248).\<close>

definition transform_one :: "'w env \<Rightarrow> string \<Rightarrow> int \<Rightarrow> pipeline_field list \<Rightarrow> jsrecord \<Rightarrow> transformed_record" where
  "transform_one env modelName modelId schemaFields record =
     \<lparr>record_id = rec_get record ''id'',
      model_name = modelName,
      model_id = modelId,
      vector_text = generateSemanticText env record modelName schemaFields,
      payload = fk_entries env record schemaFields (copy_entries record Map.empty)\<rparr>"

text \<open>The loop over the records (lines 201-249), pushing onto \<^verbatim>\<open>transformed\<close>.\<close>

fun transform_loop ::
  "'w env \<Rightarrow> string \<Rightarrow> int \<Rightarrow> pipeline_field list \<Rightarrow> jsrecord list \<Rightarrow> transformed_record list
     \<Rightarrow> transformed_record list" where
  "transform_loop env modelName modelId schemaFields [] transformed = transformed"
| "transform_loop env modelName modelId schemaFields (record # rest) transformed =
     (if \<not> truthy (rec_get record ''id'')
      then transform_loop env modelName modelId schemaFields rest transformed
      else transform_loop env modelName modelId schemaFields rest
             (transformed @ [transform_one env modelName modelId schemaFields record]))"

definition transformRecords ::
  "'w env \<Rightarrow> jsrecord list \<Rightarrow> string \<Rightarrow> int \<Rightarrow> 'w state
     \<Rightarrow> (string + transformed_record list) \<times> 'w state" where
  "transformRecords env records modelName modelId st =
     (case call (Call_getModelFieldsFromSchema modelName) (getModelFieldsFromSchema env modelName)
             (emit (Enter_transformRecords modelName) st) of
        (Inl e, st1) \<Rightarrow> (Inl e, st1)
      | (Inr schemaFields, st1) \<Rightarrow>
          (case schemaFields of
             None \<Rightarrow> (Inl (''No schema fields found for model: '' @ modelName), st1)
           | Some fs \<Rightarrow>
               if length fs = 0 then (Inl (''No schema fields found for model: '' @ modelName), st1)
               else (Inr (transform_loop env modelName modelId fs records []), st1)))"

subsection \<open>Sets and maps of the cascade\<close>

text \<open>
  A \<^verbatim>\<open>Set<number>\<close> is the list of its elements in insertion order, without repetition;
  a \<^verbatim>\<open>Map<string, Set<number>>\<close> is the list of its entries in insertion order.
\<close>

definition set_add :: "int \<Rightarrow> int list \<Rightarrow> int list" where
  "set_add x xs = (if x \<in> set xs then xs else xs @ [x])"

fun map_get :: "(string \<times> int list) list \<Rightarrow> string \<Rightarrow> int list option" where
  "map_get [] k = None"
| "map_get ((k', v) # m) k = (if k' = k then Some v else map_get m k)"

fun map_set :: "string \<Rightarrow> int list \<Rightarrow> (string \<times> int list) list \<Rightarrow> (string \<times> int list) list" where
  "map_set k v [] = [(k, v)]"
| "map_set k v ((k', v') # m) = (if k' = k then (k, v) # m else (k', v') # map_set k v m)"

text \<open>
  The inner loop shared by \<^verbatim>\<open>extractFkTargets\<close> (lines 279-290) and
  \<^verbatim>\<open>updateKnowledgeGraph\<close> (lines 325-334): the FK ids of one field over all records.
\<close>

fun collect_fk_ids :: "'w env \<Rightarrow> pipeline_field \<Rightarrow> jsrecord list \<Rightarrow> int list \<Rightarrow> int list" where
  "collect_fk_ids env fkField [] ids = ids"
| "collect_fk_ids env fkField (record # rest) ids =
     (case fkId (extractFkValueBySchema env record (descriptor_of fkField)) of
        Some n \<Rightarrow> collect_fk_ids env fkField rest (set_add n ids)
      | None \<Rightarrow> collect_fk_ids env fkField rest ids)"

subsection \<open>\<^verbatim>\<open>extractFkTargets\<close> (lines 259-302)\<close>

fun fk_targets_loop ::
  "'w env \<Rightarrow> jsrecord list \<Rightarrow> pipeline_field list \<Rightarrow> (string \<times> int list) list
     \<Rightarrow> (string \<times> int list) list" where
  "fk_targets_loop env records [] fkTargets = fkTargets"
| "fk_targets_loop env records (fkField # rest) fkTargets =
     (if \<not> truthy_string (fk_location_model fkField) then fk_targets_loop env records rest fkTargets
      else
        (let targetModel = the (fk_location_model fkField);
             targetIds = collect_fk_ids env fkField records []
         in if length targetIds > 0 then
              (let existing = (case map_get fkTargets targetModel of Some e \<Rightarrow> e | None \<Rightarrow> [])
               in fk_targets_loop env records rest
                    (map_set targetModel (fold set_add targetIds existing) fkTargets))
            else fk_targets_loop env records rest fkTargets))"

definition extractFkTargets ::
  "'w env \<Rightarrow> jsrecord list \<Rightarrow> string \<Rightarrow> 'w state \<Rightarrow> (string + (string \<times> int list) list) \<times> 'w state" where
  "extractFkTargets env records modelName st =
     (case call (Call_getFkFieldsFromSchema modelName) (getFkFieldsFromSchema env modelName)
             (emit (Enter_extractFkTargets modelName) st) of
        (Inl e, st1) \<Rightarrow> (Inl e, st1)
      | (Inr fkFields, st1) \<Rightarrow>
          (case fkFields of
             None \<Rightarrow> (Inr [], st1)
           | Some fs \<Rightarrow>
               if length fs = 0 then (Inr [], st1)
               else (Inr (fk_targets_loop env records fs []), st1)))"

subsection \<open>\<^verbatim>\<open>updateKnowledgeGraph\<close> (lines 309-360)\<close>

text \<open>The filter of lines 318-320.\<close>

definition is_fk_field :: "pipeline_field \<Rightarrow> bool" where
  "is_fk_field f =
     (field_type f = ''many2one'' \<and> truthy_string (fk_location_model f)
        \<and> truthy_id (fk_location_model_id f))"

text \<open>The argument of \<^verbatim>\<open>upsertRelationship\<close> (lines 338-350).\<close>

definition relationship_of ::
  "string \<Rightarrow> int \<Rightarrow> jsrecord list \<Rightarrow> pipeline_field \<Rightarrow> int list \<Rightarrow> relationship" where
  "relationship_of modelName modelId records fkField fkIds =
     \<lparr>source_model = modelName,
      source_model_id = modelId,
      rel_field_id = field_id fkField,
      rel_field_name = field_name fkField,
      rel_field_label = field_label fkField,
      rel_field_type = field_type fkField,
      target_model = fk_location_model fkField,
      target_model_id = fk_location_model_id fkField,
      edge_count = length records,
      unique_targets = length fkIds,
      cascade_source = modelName\<rparr>"

text \<open>The loop over the FK fields (lines 322-357), with its try/catch.\<close>

fun graph_loop ::
  "'w env \<Rightarrow> string \<Rightarrow> int \<Rightarrow> jsrecord list \<Rightarrow> pipeline_field list \<Rightarrow> nat \<Rightarrow> 'w state
     \<Rightarrow> nat \<times> 'w state" where
  "graph_loop env modelName modelId records [] edgesCreated st = (edgesCreated, st)"
| "graph_loop env modelName modelId records (fkField # rest) edgesCreated st =
     (let fkIds = collect_fk_ids env fkField records [] in
      if length fkIds > 0 then
        (let rel = relationship_of modelName modelId records fkField fkIds in
         case call (Call_upsertRelationship rel) (upsertRelationship env rel) st of
           (Inr u, st1) \<Rightarrow> graph_loop env modelName modelId records rest (edgesCreated + 1) st1
         | (Inl e, st1) \<Rightarrow> graph_loop env modelName modelId records rest edgesCreated st1)
      else graph_loop env modelName modelId records rest edgesCreated st)"

definition updateKnowledgeGraph ::
  "'w env \<Rightarrow> string \<Rightarrow> int \<Rightarrow> jsrecord list \<Rightarrow> pipeline_field list \<Rightarrow> 'w state \<Rightarrow> nat \<times> 'w state" where
  "updateKnowledgeGraph env modelName modelId records schemaFields st =
     graph_loop env modelName modelId records (filter is_fk_field schemaFields) 0
       (emit (Enter_updateKnowledgeGraph modelName) st)"

section \<open>\<^verbatim>\<open>syncExcelData\<close> (lines 373-615)\<close>

subsection \<open>The batch loop (lines 488-534)\<close>

definition EMBEDDING_BATCH_SIZE :: nat where
  "EMBEDDING_BATCH_SIZE = 50"

text \<open>
  One point (lines 505-522). The object literal lists the system fields first and
  spreads \<^verbatim>\<open>record.payload\<close> last, so the payload's entries win: \<open>m1 ++ m2\<close> is \<open>m1\<close>
  overridden by \<open>m2\<close>.
\<close>

definition system_fields :: "string \<Rightarrow> transformed_record \<Rightarrow> string \<Rightarrow> (string \<rightharpoonup> jsval)" where
  "system_fields pointId r timestamp =
     [''point_id'' \<mapsto> JStr pointId,
      ''point_type'' \<mapsto> JStr ''data'',
      ''record_id'' \<mapsto> record_id r,
      ''model_name'' \<mapsto> JStr (model_name r),
      ''model_id'' \<mapsto> JNum (model_id r),
      ''vector_text'' \<mapsto> JStr (vector_text r),
      ''sync_timestamp'' \<mapsto> JStr timestamp]"

definition build_point :: "'w env \<Rightarrow> 'w \<Rightarrow> real list list \<Rightarrow> nat \<Rightarrow> transformed_record \<Rightarrow> data_point" where
  "build_point env w embeddings idx r =
     (let pointId = buildDataUuidV2 env (model_id r) (record_id r) in
      \<lparr>point_id = pointId,
       point_vector = embeddings ! idx,
       point_payload = system_fields pointId r (nowISO env w idx) ++ payload r\<rparr>)"

text \<open>
  The body of the \<^verbatim>\<open>try\<close> block (lines 496-526) for one batch: \<open>Inl\<close> is the message of
  whatever was thrown inside it.
\<close>

definition process_batch :: "'w env \<Rightarrow> transformed_record list \<Rightarrow> 'w state \<Rightarrow> (string + unit) \<times> 'w state" where
  "process_batch env batch st =
     (let texts = map vector_text batch in
      case call (Call_embedBatch texts) (embedBatch env texts) st of
        (Inl e, st1) \<Rightarrow> (Inl e, st1)
      | (Inr embeddings, st1) \<Rightarrow>
          if length embeddings \<noteq> length batch then
            (Inl (''Embedding count mismatch: '' @ show_nat (length embeddings) @ '' vs ''
                    @ show_nat (length batch)), st1)
          else
            (let points = map (\<lambda>idx. build_point env (world st1) embeddings idx (batch ! idx))
                            [0..<length batch]
             in call (Call_upsertToUnifiedCollection points) (upsertToUnifiedCollection env points) st1))"

text \<open>The counters and the error list the loop updates.\<close>

record batch_acc =
  recordsSynced :: nat
  recordsFailed :: nat
  batch_errors :: "string list"

function batch_loop ::
  "'w env \<Rightarrow> transformed_record list \<Rightarrow> nat \<Rightarrow> batch_acc \<Rightarrow> 'w state \<Rightarrow> batch_acc \<times> 'w state" where
  "batch_loop env transformed i acc st =
     (if i < length transformed then
        (let batch = take EMBEDDING_BATCH_SIZE (drop i transformed);
             batchNum = i div EMBEDDING_BATCH_SIZE + 1
         in case process_batch env batch st of
              (Inr u, st1) \<Rightarrow>
                batch_loop env transformed (i + EMBEDDING_BATCH_SIZE)
                  (acc\<lparr>recordsSynced := recordsSynced acc + length batch\<rparr>) st1
            | (Inl errorMsg, st1) \<Rightarrow>
                batch_loop env transformed (i + EMBEDDING_BATCH_SIZE)
                  (acc\<lparr>batch_errors := batch_errors acc
                          @ [''Batch '' @ show_nat batchNum @ '' failed: '' @ errorMsg],
                       recordsFailed := recordsFailed acc + length batch\<rparr>) st1)
      else (acc, st))"
  by pat_completeness auto
termination
  by (relation "measure (\<lambda>(env, transformed, i, acc, st). length transformed - i)")
     (auto simp: EMBEDDING_BATCH_SIZE_def)

declare batch_loop.simps [simp del]

subsection \<open>Reading the data file (lines 107-125)\<close>

definition getDefaultDataFilePath :: "'w env \<Rightarrow> string \<Rightarrow> string" where
  "getDefaultDataFilePath env modelName =
     path_join env (DATA_DIR env) (''SAMPLE_'' @ modelName @ ''_data.xlsx'')"

definition readExcelData :: "'w env \<Rightarrow> string \<Rightarrow> 'w state \<Rightarrow> (string + jsrecord list) \<times> 'w state" where
  "readExcelData env path st =
     (let st1 = emit (Call_existsSync path) st in
      if \<not> existsSync env path (world st1) then (Inl (''Data file not found: '' @ path), st1)
      else call (Call_readSheet path) (readSheet env path) st1)"

text \<open>Line 390: \<^verbatim>\<open>filePath || getDefaultDataFilePath(modelName)\<close>.\<close>

definition data_file_path :: "'w env \<Rightarrow> string \<Rightarrow> sync_options \<Rightarrow> string" where
  "data_file_path env modelName options =
     (if truthy_string (filePath options) then the (filePath options)
      else getDefaultDataFilePath env modelName)"

subsection \<open>The results the function returns\<close>

text \<open>The object literals of the early returns (lines 398-408, 415-425, 437-447, 452-462, 467-477).\<close>

definition early_result :: "bool \<Rightarrow> string \<Rightarrow> int \<Rightarrow> string \<Rightarrow> nat \<Rightarrow> string list \<Rightarrow> sync_result" where
  "early_result ok modelName modelId dataFilePath nread errs =
     \<lparr>success = ok, res_model_name = modelName, res_model_id = modelId, file_path = dataFilePath,
      records_read = nread, records_synced = 0, records_failed = 0, errors = errs,
      cascaded_models = None\<rparr>"

text \<open>The object literal of the final return (lines 587-598).\<close>

definition final_result ::
  "string \<Rightarrow> int \<Rightarrow> string \<Rightarrow> jsrecord list \<Rightarrow> batch_acc \<Rightarrow> (string \<times> nat) list \<Rightarrow> sync_result" where
  "final_result modelName modelId dataFilePath records acc cascadedModels =
     \<lparr>success = (length (batch_errors acc) = 0),
      res_model_name = modelName,
      res_model_id = modelId,
      file_path = dataFilePath,
      records_read = length records,
      records_synced = recordsSynced acc,
      records_failed = recordsFailed acc,
      errors = batch_errors acc,
      cascaded_models = (if length cascadedModels > 0 then Some cascadedModels else None)\<rparr>"

subsection \<open>Graph edges and indexes (lines 538-551)\<close>

definition graph_and_indexes ::
  "'w env \<Rightarrow> string \<Rightarrow> int \<Rightarrow> jsrecord list \<Rightarrow> 'w state \<Rightarrow> (string + unit) \<times> 'w state" where
  "graph_and_indexes env modelName modelId records st =
     (case call (Call_getModelFieldsFromSchema modelName) (getModelFieldsFromSchema env modelName) st of
        (Inl e, st1) \<Rightarrow> (Inl e, st1)
      | (Inr schemaFields, st1) \<Rightarrow>
          (case schemaFields of
             None \<Rightarrow> (Inr (), st1)
           | Some fs \<Rightarrow>
               if length fs > 0 then
                 (case updateKnowledgeGraph env modelName modelId records fs st1 of
                    (edges_created, st2) \<Rightarrow>
                      (case call (Call_ensureModelIndexes modelName) (ensureModelIndexes env modelName fs) st2 of
                         (Inl e, st3) \<Rightarrow> (Inl e, st3)
                       | (Inr created, st3) \<Rightarrow> (Inr (), st3)))
               else (Inr (), st1)))"

subsection \<open>The function\<close>

text \<open>The options of a nested call (lines 567-571): no file path, cascade off.\<close>

definition cascade_options :: "sync_options \<Rightarrow> sync_options" where
  "cascade_options options =
     \<lparr>filePath = None, skipCascade = True, dryRun = dryRun options, force = force options\<rparr>"

text \<open>
  \<open>Inl\<close> is an exception that leaves \<^verbatim>\<open>syncExcelData\<close> (a rejected promise); \<open>Inr\<close> is
  the result it returns. The recursion is the nested call of line 567; it ends because
  a nested call has \<^verbatim>\<open>skipCascade\<close> set and makes no call of its own.
\<close>

function syncExcelData ::
  "'w env \<Rightarrow> string \<Rightarrow> sync_options \<Rightarrow> 'w state \<Rightarrow> (string + sync_result) \<times> 'w state" where
  "syncExcelData env modelName options st0 =
     (let dataFilePath = data_file_path env modelName options in
      case call (Call_modelExistsInSchema modelName) (modelExistsInSchema env modelName)
             (emit (Enter_syncExcelData modelName options) st0) of
        (Inl e, st1) \<Rightarrow> (Inl e, st1)
      | (Inr modelExists, st1) \<Rightarrow>
      (if \<not> modelExists then
        (Inr (early_result False modelName 0 dataFilePath 0
                [''Model '' @ [CHR 0x27] @ modelName @ [CHR 0x27]
                   @ '' not found in schema. Run schema sync first.'']), st1)
      else
      (case call (Call_getModelIdFromSchema modelName) (getModelIdFromSchema env modelName) st1 of
        (Inl e, st2) \<Rightarrow> (Inl e, st2)
      | (Inr modelIdOpt, st2) \<Rightarrow>
      (if \<not> truthy_id modelIdOpt then
        (Inr (early_result False modelName 0 dataFilePath 0
                [''Could not get model ID for: '' @ modelName]), st2)
      else
      (let modelId = the modelIdOpt in
      (case readExcelData env dataFilePath st2 of
        (Inl errorMsg, st3) \<Rightarrow>
          (Inr (early_result False modelName modelId dataFilePath 0 [errorMsg]), st3)
      | (Inr records, st3) \<Rightarrow>
      (if length records = 0 then
        (Inr (early_result True modelName modelId dataFilePath 0 []), st3)
      else if dryRun options then
        (Inr (early_result True modelName modelId dataFilePath (length records) []), st3)
      else
      (case transformRecords env records modelName modelId st3 of
        (Inl e, st4) \<Rightarrow> (Inl e, st4)
      | (Inr transformed, st4) \<Rightarrow>
      (case batch_loop env transformed 0
              \<lparr>recordsSynced = 0, recordsFailed = 0, batch_errors = []\<rparr> st4 of
        (acc, st5) \<Rightarrow>
      (case graph_and_indexes env modelName modelId records st5 of
        (Inl e, st6) \<Rightarrow> (Inl e, st6)
      | (Inr u, st6) \<Rightarrow>
      (if \<not> skipCascade options then
        (case extractFkTargets env records modelName st6 of
           (Inl e, st7) \<Rightarrow> (Inl e, st7)
         | (Inr fkTargets, st7) \<Rightarrow>
             (case fold
                     (\<lambda>target cs.
                        (case syncExcelData env (fst target) (cascade_options options) (snd cs) of
                           (Inr cascadeResult, st') \<Rightarrow>
                             (if success cascadeResult
                              then fst cs @ [(fst target, records_synced cascadeResult)]
                              else fst cs, st')
                         | (Inl e, st') \<Rightarrow> (fst cs, st')))
                     fkTargets ([], st7) of
                (cascadedModels, st8) \<Rightarrow>
                  (Inr (final_result modelName modelId dataFilePath records acc cascadedModels), st8)))
      else (Inr (final_result modelName modelId dataFilePath records acc []), st6))))))))))))"
  by pat_completeness auto
termination
  by (relation "measure (\<lambda>(env, modelName, options, st). if skipCascade options then 0 else 1)")
     (auto simp: cascade_options_def)

declare syncExcelData.simps [simp del]

subsection \<open>The function up to the end of the batch loop\<close>

text \<open>
  Lines 377-534 on their own: the accumulator and the state with which the batch loop
  ends, or \<open>None\<close> when the call returns or throws before it gets there.
\<close>

definition batch_stage ::
  "'w env \<Rightarrow> string \<Rightarrow> sync_options \<Rightarrow> 'w state \<Rightarrow> (batch_acc \<times> 'w state) option" where
  "batch_stage env modelName options st0 =
     (case call (Call_modelExistsInSchema modelName) (modelExistsInSchema env modelName)
             (emit (Enter_syncExcelData modelName options) st0) of
        (Inl e, st1) \<Rightarrow> None
      | (Inr modelExists, st1) \<Rightarrow>
      (if \<not> modelExists then None
      else
      (case call (Call_getModelIdFromSchema modelName) (getModelIdFromSchema env modelName) st1 of
        (Inl e, st2) \<Rightarrow> None
      | (Inr modelIdOpt, st2) \<Rightarrow>
      (if \<not> truthy_id modelIdOpt then None
      else
      (case readExcelData env (data_file_path env modelName options) st2 of
        (Inl errorMsg, st3) \<Rightarrow> None
      | (Inr records, st3) \<Rightarrow>
      (if length records = 0 then None
      else if dryRun options then None
      else
      (case transformRecords env records modelName (the modelIdOpt) st3 of
        (Inl e, st4) \<Rightarrow> None
      | (Inr transformed, st4) \<Rightarrow>
          Some (batch_loop env transformed 0
                  \<lparr>recordsSynced = 0, recordsFailed = 0, batch_errors = []\<rparr> st4))))))))"

section \<open>A concrete environment\<close>

text \<open>
  Modelled from the spec: \<^verbatim>\<open>extractFkValueBySchema\<close> of \<^verbatim>\<open>utils/fk-value-extractor.js\<close>,
  which is not among the sources. It follows section 4.2: the field is looked up under
  its name and then under the name with one leading space; a number or a string of
  decimal digits is a scalar id; a pair of a number and a string is a tuple; anything
  else yields no id. The expanded form (rule 3) is left out, since its naming pattern
  is not stated. It is used in concrete instances only; every general theorem below
  holds for an arbitrary extractor.
\<close>

fun digits_value :: "string \<Rightarrow> nat \<Rightarrow> nat option" where
  "digits_value [] acc = Some acc"
| "digits_value (c # cs) acc =
     (if (48::nat) \<le> of_char c \<and> (of_char c :: nat) \<le> 57
      then digits_value cs (10 * acc + (of_char c - 48)) else None)"

definition extract_fk_spec :: "jsrecord \<Rightarrow> fk_descriptor \<Rightarrow> fk_result" where
  "extract_fk_spec r d =
     (let v = (if rec_get r (fd_field_name d) \<noteq> JUndefined then rec_get r (fd_field_name d)
               else rec_get r ('' '' @ fd_field_name d))
      in case v of
           JNum n \<Rightarrow> \<lparr>fkId = Some n, displayName = None, source = Scalar\<rparr>
         | JStr s \<Rightarrow>
             (case (if s = [] then None else digits_value s 0) of
                Some n \<Rightarrow> \<lparr>fkId = Some (int n), displayName = None, source = Scalar\<rparr>
              | None \<Rightarrow> \<lparr>fkId = None, displayName = None, source = Scalar\<rparr>)
         | JArr [JNum n, JStr l] \<Rightarrow> \<lparr>fkId = Some n, displayName = Some l, source = Tuple\<rparr>
         | _ \<Rightarrow> \<lparr>fkId = None, displayName = None, source = Scalar\<rparr>)"

text \<open>
  An environment for concrete runs. The schema is a table of models (name, id, fields)
  and the file system a table of files (path, rows). The world is the number of
  \<^verbatim>\<open>embedBatch\<close> calls made so far; the calls whose number (from 0) is in \<open>bad\<close> throw.
  \<^verbatim>\<open>upsertRelationship\<close> throws unless \<open>graph_ok\<close>. The UUID builder, the clock and the
  rendering of numbers beyond the safe integers are stand-ins; no concrete run below
  holds such a number.
\<close>

definition test_env ::
  "(string \<times> int \<times> pipeline_field list) list \<Rightarrow> (string \<times> jsrecord list) list \<Rightarrow> nat list \<Rightarrow> bool
     \<Rightarrow> nat env" where
  "test_env models files bad graph_ok =
     \<lparr>DATA_DIR = ''samples'',
      path_join = (\<lambda>d f. d @ ''/'' @ f),
      existsSync = (\<lambda>p w. map_of files p \<noteq> None),
      readSheet = (\<lambda>p w. (case map_of files p of Some rows \<Rightarrow> Inr rows | None \<Rightarrow> Inl ''unreadable'', w)),
      modelExistsInSchema = (\<lambda>m w. (Inr (map_of models m \<noteq> None), w)),
      getModelIdFromSchema = (\<lambda>m w. (Inr (map_option fst (map_of models m)), w)),
      getModelFieldsFromSchema = (\<lambda>m w. (Inr (map_option snd (map_of models m)), w)),
      getFkFieldsFromSchema =
        (\<lambda>m w. (Inr (map_option (\<lambda>x. filter (\<lambda>f. field_type f = ''many2one'') (snd x))
                         (map_of models m)), w)),
      embedBatch = (\<lambda>texts w. (if w \<in> set bad then Inl ''embedding service down''
                                else Inr (map (\<lambda>t. []) texts), Suc w)),
      upsertToUnifiedCollection = (\<lambda>points w. (Inr (), w)),
      upsertRelationship = (\<lambda>rel w. (if graph_ok then Inr () else Inl ''graph store down'', w)),
      ensureModelIndexes = (\<lambda>m fs w. (Inr 0, w)),
      extractFkValueBySchema = extract_fk_spec,
      buildDataUuidV2 = (\<lambda>mid rid. show_int mid @ ''-'' @ js_String show_int rid),
      nowISO = (\<lambda>w idx. ''2026-01-01T00:00:00.000Z''),
      unsafeNumberToString = show_int\<rparr>"

definition fld ::
  "int \<Rightarrow> string \<Rightarrow> string \<Rightarrow> string \<Rightarrow> string option \<Rightarrow> int option \<Rightarrow> pipeline_field" where
  "fld i n l t m mi =
     \<lparr>field_id = i, field_name = n, field_label = l, field_type = t,
      fk_location_model = m, fk_location_model_id = mi\<rparr>"

definition st_init :: "nat state" where
  "st_init = \<lparr>world = 0, trace = []\<rparr>"

definition default_options :: sync_options where
  "default_options = \<lparr>filePath = None, skipCascade = False, dryRun = False, force = False\<rparr>"

section \<open>Definitions for the statements and the proofs\<close>

text \<open>A failed result that reports no progress and carries exactly one error.\<close>

definition zero_progress_failure :: "sync_result \<Rightarrow> bool" where
  "zero_progress_failure r =
     (\<not> success r \<and> length (errors r) = 1 \<and> records_read r = 0 \<and> records_synced r = 0
        \<and> records_failed r = 0)"

text \<open>
  The fields \<^verbatim>\<open>generateSemanticText\<close> renders for a record, and the segment it
  renders for one of them.
\<close>

definition rendered :: "jsrecord \<Rightarrow> pipeline_field \<Rightarrow> bool" where
  "rendered r f =
     (field_name f \<noteq> ''id'' \<and> rec_get r (field_name f) \<noteq> JNull
        \<and> rec_get r (field_name f) \<noteq> JUndefined \<and> rec_get r (field_name f) \<noteq> JStr [])"

definition segment :: "'w env \<Rightarrow> jsrecord \<Rightarrow> pipeline_field \<Rightarrow> string" where
  "segment env r f = label_or_name f @ '' - '' @ displayValue env r f (rec_get r (field_name f))"

text \<open>
  The FK ids that the records yield for a field, one per record that yields one, and
  the edge the claim describes for the field.
\<close>

definition resolved_ids :: "'w env \<Rightarrow> pipeline_field \<Rightarrow> jsrecord list \<Rightarrow> int list" where
  "resolved_ids env f records =
     List.map_filter (\<lambda>r. fkId (extractFkValueBySchema env r (descriptor_of f))) records"

definition expected_edge :: "'w env \<Rightarrow> string \<Rightarrow> int \<Rightarrow> jsrecord list \<Rightarrow> pipeline_field \<Rightarrow> relationship" where
  "expected_edge env m mid records f =
     \<lparr>source_model = m, source_model_id = mid, rel_field_id = field_id f,
      rel_field_name = field_name f, rel_field_label = field_label f,
      rel_field_type = field_type f, target_model = fk_location_model f,
      target_model_id = fk_location_model_id f, edge_count = length records,
      unique_targets = card (set (resolved_ids env f records)), cascade_source = m\<rparr>"

text \<open>
  The batch pipeline in the words of the specification: the input is cut into
  contiguous batches of at most \<open>n\<close> records, and the batches are processed in order,
  numbered from \<open>k\<close>. A batch that fails adds one error naming its number and adds its
  size to the failed records; a batch that succeeds adds its size to the synced
  records; either way the next batch follows.
\<close>

function chunks :: "nat \<Rightarrow> 'a list \<Rightarrow> 'a list list" where
  "chunks n xs = (if n = 0 \<or> xs = [] then [] else take n xs # chunks n (drop n xs))"
  by pat_completeness auto
termination
  by (relation "measure (\<lambda>(n, xs). length xs)") auto

declare chunks.simps [simp del]

fun run_batches ::
  "'w env \<Rightarrow> transformed_record list list \<Rightarrow> nat \<Rightarrow> batch_acc \<Rightarrow> 'w state \<Rightarrow> batch_acc \<times> 'w state" where
  "run_batches env [] k acc st = (acc, st)"
| "run_batches env (b # bs) k acc st =
     (case process_batch env b st of
        (Inr u, st1) \<Rightarrow>
          run_batches env bs (Suc k) (acc\<lparr>recordsSynced := recordsSynced acc + length b\<rparr>) st1
      | (Inl msg, st1) \<Rightarrow>
          run_batches env bs (Suc k)
            (acc\<lparr>batch_errors := batch_errors acc @ [''Batch '' @ show_nat k @ '' failed: '' @ msg],
                 recordsFailed := recordsFailed acc + length b\<rparr>) st1)"

text \<open>A transformed record for concrete runs of the batch loop.\<close>

definition t_one :: transformed_record where
  "t_one = transform_one (test_env [] [] [1] True) ''m'' 3
             [fld 1 ''id'' ''ID'' ''integer'' None None] [(''id'', JNum 1)]"

text \<open>
  \<open>emits P st st'\<close>: the trace of \<open>st'\<close> is the trace of \<open>st\<close> followed by events that
  all satisfy \<open>P\<close>.
\<close>

definition emits :: "(event \<Rightarrow> bool) \<Rightarrow> 'w state \<Rightarrow> 'w state \<Rightarrow> bool" where
  "emits P st st' = (\<exists>evs. trace st' = trace st @ evs \<and> list_all P evs)"

text \<open>
  The events of the cascade: an entry into \<^verbatim>\<open>syncExcelData\<close>, an entry into
  \<^verbatim>\<open>extractFkTargets\<close> and the lookup of the FK fields. Every other event satisfies
  \<open>no_cascade_event\<close>.
\<close>

definition no_cascade_event :: "event \<Rightarrow> bool" where
  "no_cascade_event e =
     (case e of
        Enter_syncExcelData t opts \<Rightarrow> False
      | Enter_extractFkTargets t \<Rightarrow> False
      | Call_getFkFieldsFromSchema t \<Rightarrow> False
      | _ \<Rightarrow> True)"

definition is_sync_entry :: "event \<Rightarrow> bool" where
  "is_sync_entry e = (case e of Enter_syncExcelData t opts \<Rightarrow> True | _ \<Rightarrow> False)"

text \<open>
  \<open>discovered_target env m t\<close>: \<open>t\<close> is the target model of an FK field that the schema
  returns for \<open>m\<close>. An event satisfies \<open>nested_sync_ok\<close> for a root call unless it is
  an entry into \<^verbatim>\<open>syncExcelData\<close> that has cascade enabled, or options other than those
  of line 567, or a model that is no discovered target of the root's model.
\<close>

definition discovered_target :: "'w env \<Rightarrow> string \<Rightarrow> string \<Rightarrow> bool" where
  "discovered_target env m t =
     (\<exists>fs w w'. getFkFieldsFromSchema env m w = (Inr (Some fs), w')
                 \<and> Some t \<in> fk_location_model ` set fs)"

definition nested_sync_ok :: "'w env \<Rightarrow> string \<Rightarrow> sync_options \<Rightarrow> event \<Rightarrow> bool" where
  "nested_sync_ok env m options e =
     (case e of
        Enter_syncExcelData t opts \<Rightarrow>
          skipCascade opts \<and> opts = cascade_options options \<and> discovered_target env m t
      | _ \<Rightarrow> True)"

text \<open>
  Two parts of \<^verbatim>\<open>syncExcelData\<close> on their own, for the proofs: the function up to the
  index step (lines 377-551), which throws (\<open>Inl\<close>), returns early (\<open>Inr (Inl r)\<close>) or
  reaches the cascade with the model id, the records and the batch counters; and the
  loop over the cascade targets (lines 562-583), with its body. Lemma \<open>sync_unfold\<close>
  proves that the function is their composition.
\<close>

definition before_cascade ::
  "'w env \<Rightarrow> string \<Rightarrow> sync_options \<Rightarrow> 'w state
     \<Rightarrow> (string + (sync_result + int \<times> jsrecord list \<times> batch_acc)) \<times> 'w state" where
  "before_cascade env modelName options st0 =
     (let dataFilePath = data_file_path env modelName options in
      case call (Call_modelExistsInSchema modelName) (modelExistsInSchema env modelName)
             (emit (Enter_syncExcelData modelName options) st0) of
        (Inl e, st1) \<Rightarrow> (Inl e, st1)
      | (Inr modelExists, st1) \<Rightarrow>
      (if \<not> modelExists then
        (Inr (Inl (early_result False modelName 0 dataFilePath 0
                [''Model '' @ [CHR 0x27] @ modelName @ [CHR 0x27]
                   @ '' not found in schema. Run schema sync first.''])), st1)
      else
      (case call (Call_getModelIdFromSchema modelName) (getModelIdFromSchema env modelName) st1 of
        (Inl e, st2) \<Rightarrow> (Inl e, st2)
      | (Inr modelIdOpt, st2) \<Rightarrow>
      (if \<not> truthy_id modelIdOpt then
        (Inr (Inl (early_result False modelName 0 dataFilePath 0
                [''Could not get model ID for: '' @ modelName])), st2)
      else
      (let modelId = the modelIdOpt in
      (case readExcelData env dataFilePath st2 of
        (Inl errorMsg, st3) \<Rightarrow>
          (Inr (Inl (early_result False modelName modelId dataFilePath 0 [errorMsg])), st3)
      | (Inr records, st3) \<Rightarrow>
      (if length records = 0 then
        (Inr (Inl (early_result True modelName modelId dataFilePath 0 [])), st3)
      else if dryRun options then
        (Inr (Inl (early_result True modelName modelId dataFilePath (length records) [])), st3)
      else
      (case transformRecords env records modelName modelId st3 of
        (Inl e, st4) \<Rightarrow> (Inl e, st4)
      | (Inr transformed, st4) \<Rightarrow>
      (case batch_loop env transformed 0
              \<lparr>recordsSynced = 0, recordsFailed = 0, batch_errors = []\<rparr> st4 of
        (acc, st5) \<Rightarrow>
      (case graph_and_indexes env modelName modelId records st5 of
        (Inl e, st6) \<Rightarrow> (Inl e, st6)
      | (Inr u, st6) \<Rightarrow> (Inr (Inr (modelId, records, acc)), st6)))))))))))"

definition cascade_step ::
  "'w env \<Rightarrow> sync_options \<Rightarrow> string \<times> int list \<Rightarrow> (string \<times> nat) list \<times> 'w state
     \<Rightarrow> (string \<times> nat) list \<times> 'w state" where
  "cascade_step env options target cs =
     (case syncExcelData env (fst target) (cascade_options options) (snd cs) of
        (Inr cascadeResult, st') \<Rightarrow>
          (if success cascadeResult
           then fst cs @ [(fst target, records_synced cascadeResult)]
           else fst cs, st')
      | (Inl e, st') \<Rightarrow> (fst cs, st'))"

definition cascade_loop ::
  "'w env \<Rightarrow> sync_options \<Rightarrow> (string \<times> int list) list \<Rightarrow> (string \<times> nat) list \<times> 'w state
     \<Rightarrow> (string \<times> nat) list \<times> 'w state" where
  "cascade_loop env options fkTargets cs0 = fold (cascade_step env options) fkTargets cs0"

text \<open>
  Models A, B and C, where A has an FK to B and B has an FK to C; and a model whose
  graph store is down and whose cascade target has no data file.
\<close>

definition abc_env :: "nat env" where
  "abc_env = test_env
     [(''A'', 1, [fld 1 ''id'' ''ID'' ''integer'' None None,
                  fld 2 ''b_id'' ''B'' ''many2one'' (Some ''B'') (Some 2)]),
      (''B'', 2, [fld 3 ''id'' ''ID'' ''integer'' None None,
                  fld 4 ''c_id'' ''C'' ''many2one'' (Some ''C'') (Some 3)]),
      (''C'', 3, [fld 5 ''id'' ''ID'' ''integer'' None None])]
     [(''samples/SAMPLE_A_data.xlsx'', [[(''id'', JNum 1), (''b_id'', JNum 10)]]),
      (''samples/SAMPLE_B_data.xlsx'', [[(''id'', JNum 10), (''c_id'', JNum 20)]]),
      (''samples/SAMPLE_C_data.xlsx'', [[(''id'', JNum 20)]])]
     [] True"

definition adv_env :: "nat env" where
  "adv_env = test_env
     [(''customer'', 1, [fld 1 ''id'' ''ID'' ''integer'' None None,
                         fld 2 ''country_id'' ''Country'' ''many2one'' (Some ''country'') (Some 2)]),
      (''country'', 2, [fld 3 ''id'' ''ID'' ''integer'' None None])]
     [(''samples/SAMPLE_customer_data.xlsx'', [[(''id'', JNum 1), (''country_id'', JNum 7)]])]
     [] False"

text \<open>
  The graph edges of a call of \<^verbatim>\<open>updateKnowledgeGraph\<close> as the specification lists
  them: one for every many2one field with both targets declared for which some record
  yields an FK id, in schema order. \<open>upsert_run\<close> upserts a list of edges in order,
  each in the world the previous one left, and returns the number of upserts that did
  not throw together with the last world.
\<close>

definition fk_edges ::
  "'w env \<Rightarrow> string \<Rightarrow> int \<Rightarrow> jsrecord list \<Rightarrow> pipeline_field list \<Rightarrow> relationship list" where
  "fk_edges env m mid records fs =
     map (expected_edge env m mid records)
       (filter (\<lambda>f. is_fk_field f \<and> resolved_ids env f records \<noteq> []) fs)"

fun upsert_run :: "'w env \<Rightarrow> relationship list \<Rightarrow> 'w \<Rightarrow> nat \<times> 'w" where
  "upsert_run env [] w = (0, w)"
| "upsert_run env (rel # rels) w =
     (case upsertRelationship env rel w of
        (Inr u, w') \<Rightarrow> (Suc (fst (upsert_run env rels w')), snd (upsert_run env rels w'))
      | (Inl e, w') \<Rightarrow> upsert_run env rels w')"

text \<open>A graph store that rejects the edges of the field \<^verbatim>\<open>country_id\<close> and no other.\<close>

definition mixed_env :: "nat env" where
  "mixed_env = (test_env [] [] [] True)
     \<lparr>upsertRelationship :=
        (\<lambda>rel w. (if rel_field_name rel = ''country_id'' then Inl ''graph store down''
                   else Inr (), w))\<rparr>"



text \<open>
  The seven keys of the object literal of lines 511-520, and the condition under which
  the loop of lines 220-240 assigns the key \<open>k\<close> of the payload for the field \<open>f\<close>.
\<close>

definition system_keys :: "string list" where
  "system_keys = [''point_id'', ''point_type'', ''record_id'', ''model_name'', ''model_id'',
                  ''vector_text'', ''sync_timestamp'']"

definition writes_key :: "'w env \<Rightarrow> jsrecord \<Rightarrow> pipeline_field \<Rightarrow> string \<Rightarrow> bool" where
  "writes_key env r f k =
     (field_type f = ''many2one'' \<and> truthy_id (fk_location_model_id f)
      \<and> (case fkId (extractFkValueBySchema env r (descriptor_of f)) of
            None \<Rightarrow> False
          | Some n \<Rightarrow>
              k = field_name f @ ''_qdrant''
              \<or> (source (extractFkValueBySchema env r (descriptor_of f)) = Scalar
                  \<and> k = field_name f @ ''_id'')))"

section \<open>Basic facts about the trace\<close>

lemma world_emit [simp]: "world (emit e st) = world st"
  by (simp add: emit_def)

lemma trace_emit [simp]: "trace (emit e st) = trace st @ [e]"
  by (simp add: emit_def)

lemma call_eq:
  "call e f st = (fst (f (world st)), \<lparr>world = snd (f (world st)), trace = trace st @ [e]\<rparr>)"
  by (simp add: call_def split: prod.splits)

section \<open>Evaluation of the concrete environment\<close>

lemma test_env_sel:
  "DATA_DIR (test_env ms fl bad g) = ''samples''"
  "path_join (test_env ms fl bad g) = (\<lambda>d f. d @ ''/'' @ f)"
  "existsSync (test_env ms fl bad g) = (\<lambda>p w. map_of fl p \<noteq> None)"
  "readSheet (test_env ms fl bad g) =
     (\<lambda>p w. (case map_of fl p of Some rows \<Rightarrow> Inr rows | None \<Rightarrow> Inl ''unreadable'', w))"
  "modelExistsInSchema (test_env ms fl bad g) = (\<lambda>m w. (Inr (map_of ms m \<noteq> None), w))"
  "getModelIdFromSchema (test_env ms fl bad g) = (\<lambda>m w. (Inr (map_option fst (map_of ms m)), w))"
  "getModelFieldsFromSchema (test_env ms fl bad g) = (\<lambda>m w. (Inr (map_option snd (map_of ms m)), w))"
  "getFkFieldsFromSchema (test_env ms fl bad g) =
     (\<lambda>m w. (Inr (map_option (\<lambda>x. filter (\<lambda>f. field_type f = ''many2one'') (snd x)) (map_of ms m)), w))"
  "embedBatch (test_env ms fl bad g) =
     (\<lambda>texts w. (if w \<in> set bad then Inl ''embedding service down'' else Inr (map (\<lambda>t. []) texts), Suc w))"
  "upsertToUnifiedCollection (test_env ms fl bad g) = (\<lambda>points w. (Inr (), w))"
  "upsertRelationship (test_env ms fl bad g) =
     (\<lambda>rel w. (if g then Inr () else Inl ''graph store down'', w))"
  "ensureModelIndexes (test_env ms fl bad g) = (\<lambda>m fs w. (Inr 0, w))"
  "extractFkValueBySchema (test_env ms fl bad g) = extract_fk_spec"
  "buildDataUuidV2 (test_env ms fl bad g) = (\<lambda>mid rid. show_int mid @ ''-'' @ js_String show_int rid)"
  "unsafeNumberToString (test_env ms fl bad g) = show_int"
  "nowISO (test_env ms fl bad g) = (\<lambda>w idx. ''2026-01-01T00:00:00.000Z'')"
  by (simp_all add: test_env_def)

lemmas fixture_defs =
  test_env_sel fld_def st_init_def default_options_def extract_fk_spec_def rec_get_def
  object_prototype_def
  descriptor_of_def truthy_string_def truthy_id_def label_or_name_def

lemma show_nat_digit: "n < 10 \<Longrightarrow> show_nat n = [digit_char n]"
  by (subst show_nat.simps) simp

lemma show_nat_step: "10 \<le> n \<Longrightarrow> show_nat n = show_nat (n div 10) @ [digit_char (n mod 10)]"
  by (subst show_nat.simps) simp

lemmas show_simps =
  show_nat_digit show_nat_step show_int_def digit_char_def number_to_string_def
  MAX_SAFE_INTEGER_def

section \<open>The loops as list functions\<close>

lemma transform_loop_eq:
  "transform_loop env m mid fs rs acc =
     acc @ map (transform_one env m mid fs) (filter (\<lambda>r. truthy (rec_get r ''id'')) rs)"
  by (induction rs arbitrary: acc) simp_all

lemma semantic_parts_eq:
  "semantic_parts env r fs parts =
     parts @ map (\<lambda>f. label_or_name f @ '' - '' @ displayValue env r f (rec_get r (field_name f)))
               (filter (\<lambda>f. field_name f \<noteq> ''id'' \<and> rec_get r (field_name f) \<noteq> JNull
                          \<and> rec_get r (field_name f) \<noteq> JUndefined
                          \<and> rec_get r (field_name f) \<noteq> JStr []) fs)"
  by (induction fs arbitrary: parts) (simp_all add: Let_def)

lemma copy_entries_notin:
  "k \<notin> fst ` set r \<Longrightarrow> copy_entries r pl k = pl k"
  by (induction r pl rule: copy_entries.induct) auto

lemma copy_entries_lookup:
  "distinct (map fst r) \<Longrightarrow> (k, v) \<in> set r \<Longrightarrow> v \<noteq> JNull \<Longrightarrow> v \<noteq> JUndefined
     \<Longrightarrow> k \<noteq> ''__proto__'' \<Longrightarrow> copy_entries r pl k = Some v"
proof (induction r arbitrary: pl)
  case Nil
  then show ?case by simp
next
  case (Cons e rest)
  obtain key val where e: "e = (key, val)" by (cases e)
  show ?case
  proof (cases "key = k")
    case True
    with Cons.prems e have "val = v" and "k \<notin> fst ` set rest" by force+
    with True Cons.prems e show ?thesis by (simp add: copy_entries_notin)
  next
    case False
    with Cons.prems e have "(k, v) \<in> set rest" and "distinct (map fst rest)" by auto
    then have "\<And>pl. copy_entries rest pl k = Some v"
      using Cons.IH Cons.prems by blast
    with e show ?thesis by simp
  qed
qed

lemma copy_entries_skipped:
  "\<forall>v. (k, v) \<in> set r \<longrightarrow> v = JNull \<or> v = JUndefined \<Longrightarrow> copy_entries r pl k = pl k"
proof (induction r arbitrary: pl)
  case Nil
  then show ?case by simp
next
  case (Cons e rest)
  obtain key val where e: "e = (key, val)" by (cases e)
  from Cons.prems have rest: "\<forall>v. (k, v) \<in> set rest \<longrightarrow> v = JNull \<or> v = JUndefined" by auto
  have ih: "copy_entries rest pl' k = pl' k" for pl' by (rule Cons.IH [OF rest])
  show ?case
  proof (cases "key = k")
    case True
    with Cons.prems e have "val = JNull \<or> val = JUndefined" by auto
    with e ih show ?thesis by auto
  next
    case False
    with e ih show ?thesis by simp
  qed
qed

lemma fk_entries_unwritten:
  "\<forall>f \<in> set fs. \<not> writes_key env r f k \<Longrightarrow> fk_entries env r fs pl k = pl k"
  by (induction fs arbitrary: pl) (auto simp: writes_key_def Let_def split: option.splits)

lemma fk_entries_append:
  "fk_entries env r (fs1 @ fs2) pl = fk_entries env r fs2 (fk_entries env r fs1 pl)"
  by (induction fs1 arbitrary: pl) (auto simp: Let_def split: option.splits)

lemma fk_entries_last_id:
  assumes "field_type f = ''many2one''" and "truthy_id (fk_location_model_id f)"
    and "fkId (extractFkValueBySchema env r (descriptor_of f)) = Some n"
    and "source (extractFkValueBySchema env r (descriptor_of f)) = Scalar"
    and "\<forall>g \<in> set fs2. \<not> writes_key env r g (field_name f @ ''_id'')"
  shows "fk_entries env r (fs1 @ f # fs2) pl (field_name f @ ''_id'') = Some (JNum n)"
proof -
  have "fk_entries env r (fs1 @ f # fs2) pl
          = fk_entries env r fs2 (fk_entries env r [f] (fk_entries env r fs1 pl))"
    using fk_entries_append [of env r fs1 "[f] @ fs2" pl] fk_entries_append [of env r "[f]" fs2]
    by simp
  moreover have "fk_entries env r [f] pl' (field_name f @ ''_id'') = Some (JNum n)" for pl'
    using assms(1-4) by (simp add: Let_def)
  ultimately show ?thesis using assms(5) by (simp add: fk_entries_unwritten)
qed

lemma collect_fk_ids_set:
  "set (collect_fk_ids env f rs ids) = set ids \<union> set (resolved_ids env f rs)"
  by (induction rs arbitrary: ids)
     (auto simp: resolved_ids_def set_add_def split: option.splits)

lemma collect_fk_ids_distinct:
  "distinct ids \<Longrightarrow> distinct (collect_fk_ids env f rs ids)"
  by (induction rs arbitrary: ids) (auto simp: set_add_def split: option.splits)

lemma collect_fk_ids_length:
  "length (collect_fk_ids env f rs []) = card (set (resolved_ids env f rs))"
proof -
  have "distinct (collect_fk_ids env f rs [])"
    by (rule collect_fk_ids_distinct) simp
  then have "length (collect_fk_ids env f rs []) = card (set (collect_fk_ids env f rs []))"
    by (simp add: distinct_card)
  then show ?thesis by (simp add: collect_fk_ids_set)
qed

lemma collect_fk_ids_empty:
  "collect_fk_ids env f rs [] = [] \<longleftrightarrow> resolved_ids env f rs = []"
proof -
  have "set (collect_fk_ids env f rs []) = set (resolved_ids env f rs)"
    by (simp add: collect_fk_ids_set)
  then show ?thesis by (metis set_empty)
qed

lemma relationship_of_expected:
  "relationship_of m mid rs f (collect_fk_ids env f rs []) = expected_edge env m mid rs f"
  by (simp add: relationship_of_def expected_edge_def collect_fk_ids_length)

lemma graph_loop_trace:
  "trace (snd (graph_loop env m mid rs fs n st)) =
     trace st @ map (\<lambda>f. Call_upsertRelationship (expected_edge env m mid rs f))
                  (filter (\<lambda>f. resolved_ids env f rs \<noteq> []) fs)"
proof (induction fs arbitrary: n st)
  case Nil
  then show ?case by simp
next
  case (Cons f fs)
  show ?case
  proof (cases "resolved_ids env f rs = []")
    case True
    then have "collect_fk_ids env f rs [] = []" by (simp add: collect_fk_ids_empty)
    with True Cons show ?thesis by simp
  next
    case False
    then have ne: "collect_fk_ids env f rs [] \<noteq> []" by (simp add: collect_fk_ids_empty)
    show ?thesis
      using False ne Cons [of _ "snd (call (Call_upsertRelationship (expected_edge env m mid rs f))
                 (upsertRelationship env (expected_edge env m mid rs f)) st)"]
      by (cases "fst (upsertRelationship env (expected_edge env m mid rs f) (world st))")
         (simp_all add: Let_def relationship_of_expected call_eq)
  qed
qed

lemma graph_loop_count:
  "fst (graph_loop env m mid rs fs n st) \<le> n + length (filter (\<lambda>f. resolved_ids env f rs \<noteq> []) fs)"
proof (induction fs arbitrary: n st)
  case Nil
  then show ?case by simp
next
  case (Cons f fs)
  show ?case
  proof (cases "resolved_ids env f rs = []")
    case True
    then have "collect_fk_ids env f rs [] = []" by (simp add: collect_fk_ids_empty)
    with True Cons [of n st] show ?thesis by simp
  next
    case False
    then have ne: "collect_fk_ids env f rs [] \<noteq> []" by (simp add: collect_fk_ids_empty)
    let ?st = "snd (call (Call_upsertRelationship (expected_edge env m mid rs f))
                 (upsertRelationship env (expected_edge env m mid rs f)) st)"
    show ?thesis
      using False ne Cons [of n ?st] Cons [of "Suc n" ?st]
      by (cases "fst (upsertRelationship env (expected_edge env m mid rs f) (world st))")
         (simp_all add: Let_def relationship_of_expected call_eq)
  qed
qed

lemma graph_loop_all_fail:
  assumes "\<forall>rel w. isl (fst (upsertRelationship env rel w))"
  shows "fst (graph_loop env m mid rs fs n st) = n"
proof (induction fs arbitrary: st)
  case Nil
  then show ?case by simp
next
  case (Cons f fs)
  let ?st = "snd (call (Call_upsertRelationship (expected_edge env m mid rs f))
                 (upsertRelationship env (expected_edge env m mid rs f)) st)"
  from assms have "isl (fst (upsertRelationship env (expected_edge env m mid rs f) (world st)))"
    by blast
  then obtain e where "fst (upsertRelationship env (expected_edge env m mid rs f) (world st)) = Inl e"
    by (cases "fst (upsertRelationship env (expected_edge env m mid rs f) (world st))") auto
  with Cons [of st] Cons [of ?st] show ?case
    by (simp add: Let_def relationship_of_expected call_eq)
qed


lemma graph_loop_all_ok:
  assumes "\<forall>rel w. \<not> isl (fst (upsertRelationship env rel w))"
  shows "fst (graph_loop env m mid rs fs n st) =
           n + length (filter (\<lambda>f. resolved_ids env f rs \<noteq> []) fs)"
proof (induction fs arbitrary: n st)
  case Nil
  then show ?case by simp
next
  case (Cons f fs)
  let ?st = "snd (call (Call_upsertRelationship (expected_edge env m mid rs f))
                 (upsertRelationship env (expected_edge env m mid rs f)) st)"
  from assms have "\<not> isl (fst (upsertRelationship env (expected_edge env m mid rs f) (world st)))"
    by blast
  then obtain u where u: "fst (upsertRelationship env (expected_edge env m mid rs f) (world st)) = Inr u"
    by (cases "fst (upsertRelationship env (expected_edge env m mid rs f) (world st))") auto
  show ?case
  proof (cases "resolved_ids env f rs = []")
    case True
    then have "collect_fk_ids env f rs [] = []" by (simp add: collect_fk_ids_empty)
    with True Cons [of n st] show ?thesis by simp
  next
    case False
    then have ne: "collect_fk_ids env f rs [] \<noteq> []" by (simp add: collect_fk_ids_empty)
    with False u Cons [of "Suc n" ?st] show ?thesis
      by (simp add: Let_def relationship_of_expected call_eq)
  qed
qed

lemma graph_loop_run:
  "graph_loop env m mid rs fs n st =
     (n + fst (upsert_run env (map (expected_edge env m mid rs)
                                (filter (\<lambda>f. resolved_ids env f rs \<noteq> []) fs)) (world st)),
      \<lparr>world = snd (upsert_run env (map (expected_edge env m mid rs)
                                (filter (\<lambda>f. resolved_ids env f rs \<noteq> []) fs)) (world st)),
       trace = trace st @ map (\<lambda>f. Call_upsertRelationship (expected_edge env m mid rs f))
                            (filter (\<lambda>f. resolved_ids env f rs \<noteq> []) fs)\<rparr>)"
proof (induction fs arbitrary: n st)
  case Nil
  then show ?case by simp
next
  case (Cons f fs)
  show ?case
  proof (cases "resolved_ids env f rs = []")
    case True
    then have "collect_fk_ids env f rs [] = []" by (simp add: collect_fk_ids_empty)
    with True Cons show ?thesis by simp
  next
    case False
    then have ne: "collect_fk_ids env f rs [] \<noteq> []" by (simp add: collect_fk_ids_empty)
    obtain res w' where u: "upsertRelationship env (expected_edge env m mid rs f) (world st) = (res, w')"
      by (cases "upsertRelationship env (expected_edge env m mid rs f) (world st)")
    show ?thesis
      using False ne u
      by (cases res) (simp_all add: Let_def relationship_of_expected call_eq Cons)
  qed
qed

lemma upsert_run_count:
  assumes "\<forall>rel w. isl (fst (upsertRelationship env rel w)) = fails rel"
  shows "fst (upsert_run env rels w) = length (filter (\<lambda>rel. \<not> fails rel) rels)"
proof (induction rels arbitrary: w)
  case Nil
  then show ?case by simp
next
  case (Cons rel rels)
  obtain res w' where u: "upsertRelationship env rel w = (res, w')"
    by (cases "upsertRelationship env rel w")
  from assms have "isl (fst (upsertRelationship env rel w)) = fails rel" by blast
  with u have "isl res = fails rel" by simp
  with u Cons show ?case by (cases res) simp_all
qed

section \<open>The batch loop and the batches of the specification\<close>

lemma chunks_Nil [simp]: "chunks n [] = []"
  by (simp add: chunks.simps)

lemma chunks_step: "0 < n \<Longrightarrow> xs \<noteq> [] \<Longrightarrow> chunks n xs = take n xs # chunks n (drop n xs)"
  by (subst chunks.simps) simp

lemma concat_chunks: "0 < n \<Longrightarrow> concat (chunks n xs) = xs"
proof (induction n xs rule: chunks.induct)
  case (1 n xs)
  then show ?case by (cases "xs = []") (simp_all add: chunks_step)
qed

lemma chunks_bounds: "0 < n \<Longrightarrow> b \<in> set (chunks n xs) \<Longrightarrow> b \<noteq> [] \<and> length b \<le> n"
proof (induction n xs rule: chunks.induct)
  case (1 n xs)
  show ?case
  proof (cases "xs = []")
    case True
    with 1 show ?thesis by simp
  next
    case False
    with 1 show ?thesis by (auto simp: chunks_step)
  qed
qed

lemma batch_loop_run_batches:
  "batch_loop env xs i acc st =
     run_batches env (chunks EMBEDDING_BATCH_SIZE (drop i xs)) (i div EMBEDDING_BATCH_SIZE + 1) acc st"
proof (induction "length xs - i" arbitrary: i acc st rule: less_induct)
  case less
  show ?case
  proof (cases "i < length xs")
    case False
    then show ?thesis by (subst batch_loop.simps) simp
  next
    case True
    then have ne: "drop i xs \<noteq> []" by simp
    have k: "(i + EMBEDDING_BATCH_SIZE) div EMBEDDING_BATCH_SIZE + 1
               = Suc (i div EMBEDDING_BATCH_SIZE + 1)"
      by (simp add: EMBEDDING_BATCH_SIZE_def)
    have c: "chunks EMBEDDING_BATCH_SIZE (drop i xs) =
               take EMBEDDING_BATCH_SIZE (drop i xs)
                 # chunks EMBEDDING_BATCH_SIZE (drop (i + EMBEDDING_BATCH_SIZE) xs)"
      using ne by (simp add: chunks_step EMBEDDING_BATCH_SIZE_def add.commute)
    have ih: "batch_loop env xs (i + EMBEDDING_BATCH_SIZE) acc' st' =
                run_batches env (chunks EMBEDDING_BATCH_SIZE (drop (i + EMBEDDING_BATCH_SIZE) xs))
                  (Suc (i div EMBEDDING_BATCH_SIZE + 1)) acc' st'" for acc' st'
      using less [of "i + EMBEDDING_BATCH_SIZE" acc' st'] True
      by (simp only: k) (simp add: EMBEDDING_BATCH_SIZE_def)
    obtain res st1 where p: "process_batch env (take EMBEDDING_BATCH_SIZE (drop i xs)) st = (res, st1)"
      by (cases "process_batch env (take EMBEDDING_BATCH_SIZE (drop i xs)) st")
    have "batch_loop env xs i acc st =
            (case res of
               Inr u \<Rightarrow>
                 batch_loop env xs (i + EMBEDDING_BATCH_SIZE)
                   (acc\<lparr>recordsSynced := recordsSynced acc
                          + length (take EMBEDDING_BATCH_SIZE (drop i xs))\<rparr>) st1
             | Inl msg \<Rightarrow>
                 batch_loop env xs (i + EMBEDDING_BATCH_SIZE)
                   (acc\<lparr>batch_errors := batch_errors acc
                          @ [''Batch '' @ show_nat (i div EMBEDDING_BATCH_SIZE + 1) @ '' failed: '' @ msg],
                        recordsFailed := recordsFailed acc
                          + length (take EMBEDDING_BATCH_SIZE (drop i xs))\<rparr>) st1)"
      using True p by (subst batch_loop.simps) (simp add: Let_def split: sum.splits)
    also have "\<dots> = run_batches env (chunks EMBEDDING_BATCH_SIZE (drop i xs))
                      (i div EMBEDDING_BATCH_SIZE + 1) acc st"
      by (simp only: c ih run_batches.simps p) (simp split: sum.splits)
    finally show ?thesis .
  qed
qed


lemma run_batches_total:
  "recordsSynced (fst (run_batches env bs k acc st)) + recordsFailed (fst (run_batches env bs k acc st))
     = recordsSynced acc + recordsFailed acc + length (concat bs)"
proof (induction bs arbitrary: k acc st)
  case Nil
  then show ?case by simp
next
  case (Cons b bs)
  obtain res st1 where p: "process_batch env b st = (res, st1)"
    by (cases "process_batch env b st")
  show ?case
    by (cases res) (simp_all add: p Cons)
qed

lemma chunks_120:
  assumes "length xs = 120"
  shows "chunks 50 xs = [take 50 xs, take 50 (drop 50 xs), drop 100 xs]"
proof -
  from assms have 1: "xs \<noteq> []" and 2: "drop 50 xs \<noteq> []" and 3: "drop 100 xs \<noteq> []"
    by auto
  have "chunks 50 xs = take 50 xs # chunks 50 (drop 50 xs)"
    using 1 by (simp add: chunks_step)
  also have "chunks 50 (drop 50 xs) = take 50 (drop 50 xs) # chunks 50 (drop 100 xs)"
    using 2 by (simp add: chunks_step)
  also have "chunks 50 (drop 100 xs) = [drop 100 xs]"
    using 3 assms by (simp add: chunks_step)
  finally show ?thesis .
qed

lemma process_batch_test_env:
  "fst (process_batch (test_env ms fl bad g) b st) =
     (if world st \<in> set bad then Inl ''embedding service down'' else Inr ())"
  "world (snd (process_batch (test_env ms fl bad g) b st)) = Suc (world st)"
  by (simp_all add: process_batch_def call_eq test_env_sel Let_def)

lemma batch_loop_second_fails:
  assumes "length xs = 120" and "world st = 0"
  shows "fst (batch_loop (test_env ms fl [Suc 0] g) xs 0
                \<lparr>recordsSynced = 0, recordsFailed = 0, batch_errors = []\<rparr> st)
           = \<lparr>recordsSynced = 70, recordsFailed = 50,
              batch_errors = [''Batch 2 failed: embedding service down'']\<rparr>"
proof -
  have "batch_loop (test_env ms fl [Suc 0] g) xs 0
          \<lparr>recordsSynced = 0, recordsFailed = 0, batch_errors = []\<rparr> st
        = run_batches (test_env ms fl [Suc 0] g) [take 50 xs, take 50 (drop 50 xs), drop 100 xs] 1
            \<lparr>recordsSynced = 0, recordsFailed = 0, batch_errors = []\<rparr> st"
    using assms(1) by (simp add: batch_loop_run_batches EMBEDDING_BATCH_SIZE_def chunks_120)
  then show ?thesis
    using assms
    by (simp add: case_prod_beta process_batch_test_env show_nat_digit digit_char_def)
qed

section \<open>What the stages add to the trace\<close>

lemma emits_refl [simp]: "emits P st st"
  by (simp add: emits_def)

lemma emits_trans: "emits P a b \<Longrightarrow> emits P b c \<Longrightarrow> emits P a c"
  by (auto simp: emits_def)

lemma emits_mono: "emits P a b \<Longrightarrow> (\<And>e. P e \<Longrightarrow> Q e) \<Longrightarrow> emits Q a b"
  by (auto simp: emits_def list_all_iff)

lemma emits_emit: "P e \<Longrightarrow> emits P st (emit e st)"
  by (simp add: emits_def)

lemma emits_call: "P e \<Longrightarrow> emits P st (snd (call e f st))"
  by (simp add: emits_def call_eq)

lemma emits_readExcelData:
  "P (Call_existsSync p) \<Longrightarrow> P (Call_readSheet p) \<Longrightarrow> emits P st (snd (readExcelData env p st))"
  by (simp add: readExcelData_def Let_def emits_def call_eq)

lemma emits_transformRecords:
  "P (Enter_transformRecords m) \<Longrightarrow> P (Call_getModelFieldsFromSchema m)
     \<Longrightarrow> emits P st (snd (transformRecords env rs m mid st))"
  by (simp add: transformRecords_def emits_def call_eq split: sum.splits option.splits)

lemma emits_process_batch:
  "(\<And>ts. P (Call_embedBatch ts)) \<Longrightarrow> (\<And>ps. P (Call_upsertToUnifiedCollection ps))
     \<Longrightarrow> emits P st (snd (process_batch env b st))"
  by (simp add: process_batch_def Let_def emits_def call_eq split: sum.splits)

lemma emits_run_batches:
  assumes "\<And>ts. P (Call_embedBatch ts)" and "\<And>ps. P (Call_upsertToUnifiedCollection ps)"
  shows "emits P st (snd (run_batches env bs k acc st))"
proof (induction bs arbitrary: k acc st)
  case Nil
  then show ?case by simp
next
  case (Cons b bs)
  obtain res st1 where p: "process_batch env b st = (res, st1)"
    by (cases "process_batch env b st")
  have "emits P st st1"
    using emits_process_batch [of P st env b] assms p by simp
  then show ?case
    by (cases res) (auto simp: p intro: emits_trans Cons)
qed

lemma emits_batch_loop:
  assumes "\<And>ts. P (Call_embedBatch ts)" and "\<And>ps. P (Call_upsertToUnifiedCollection ps)"
  shows "emits P st (snd (batch_loop env xs i acc st))"
  by (simp add: batch_loop_run_batches emits_run_batches assms)

lemma emits_updateKnowledgeGraph:
  assumes "P (Enter_updateKnowledgeGraph m)" and "\<And>rel. P (Call_upsertRelationship rel)"
  shows "emits P st (snd (updateKnowledgeGraph env m mid rs fs st))"
  using assms
  by (simp add: updateKnowledgeGraph_def graph_loop_trace emits_def list_all_iff)

lemma emits_graph_and_indexes:
  assumes "P (Call_getModelFieldsFromSchema m)" and "P (Enter_updateKnowledgeGraph m)"
      and "\<And>rel. P (Call_upsertRelationship rel)" and "P (Call_ensureModelIndexes m)"
  shows "emits P st (snd (graph_and_indexes env m mid rs st))"
proof -
  let ?c = "call (Call_getModelFieldsFromSchema m) (getModelFieldsFromSchema env m) st"
  have a: "emits P st (snd ?c)" using assms by (simp add: emits_call)
  have b: "emits P (snd ?c) (snd (updateKnowledgeGraph env m mid rs fs (snd ?c)))" for fs
    using assms by (simp add: emits_updateKnowledgeGraph)
  have c: "emits P s (snd (call (Call_ensureModelIndexes m) f s))" for f s
    using assms by (simp add: emits_call)
  show ?thesis
    unfolding graph_and_indexes_def
    by (auto simp: case_prod_beta split: sum.splits option.splits
          intro: a emits_trans [OF a b] emits_trans [OF emits_trans [OF a b] c])
qed

lemma emits_extractFkTargets:
  "P (Enter_extractFkTargets m) \<Longrightarrow> P (Call_getFkFieldsFromSchema m)
     \<Longrightarrow> emits P st (snd (extractFkTargets env rs m st))"
  by (simp add: extractFkTargets_def emits_def call_eq split: sum.splits option.splits)

lemma sync_unfold:
  "syncExcelData env m options st0 =
     (case before_cascade env m options st0 of
        (Inl e, s) \<Rightarrow> (Inl e, s)
      | (Inr (Inl r), s) \<Rightarrow> (Inr r, s)
      | (Inr (Inr (mid, records, acc)), s6) \<Rightarrow>
          (if \<not> skipCascade options then
             (case extractFkTargets env records m s6 of
                (Inl e, st7) \<Rightarrow> (Inl e, st7)
              | (Inr fkTargets, st7) \<Rightarrow>
                  (case cascade_loop env options fkTargets ([], st7) of
                     (cascadedModels, st8) \<Rightarrow>
                       (Inr (final_result m mid (data_file_path env m options) records acc
                               cascadedModels), st8)))
           else (Inr (final_result m mid (data_file_path env m options) records acc []), s6)))"
  by (subst syncExcelData.simps)
     (simp add: before_cascade_def cascade_loop_def cascade_step_def [abs_def] Let_def
        split: prod.splits sum.splits)

lemma no_cascade_event_simps [simp]:
  "\<not> no_cascade_event (Enter_syncExcelData t opts)"
  "\<not> no_cascade_event (Enter_extractFkTargets t)"
  "\<not> no_cascade_event (Call_getFkFieldsFromSchema t)"
  "no_cascade_event (Call_modelExistsInSchema t)"
  "no_cascade_event (Call_getModelIdFromSchema t)"
  "no_cascade_event (Call_existsSync t)"
  "no_cascade_event (Call_readSheet t)"
  "no_cascade_event (Enter_transformRecords t)"
  "no_cascade_event (Call_getModelFieldsFromSchema t)"
  "no_cascade_event (Call_embedBatch ts)"
  "no_cascade_event (Call_upsertToUnifiedCollection ps)"
  "no_cascade_event (Enter_updateKnowledgeGraph t)"
  "no_cascade_event (Call_upsertRelationship rel)"
  "no_cascade_event (Call_ensureModelIndexes t)"
  by (simp_all add: no_cascade_event_def)

lemma before_cascade_emits:
  "emits no_cascade_event (emit (Enter_syncExcelData m options) st0)
     (snd (before_cascade env m options st0))"
proof -
  define s0 where "s0 = emit (Enter_syncExcelData m options) st0"
  define path where "path = data_file_path env m options"
  define c1 where "c1 = call (Call_modelExistsInSchema m) (modelExistsInSchema env m) s0"
  define c2 where "c2 = call (Call_getModelIdFromSchema m) (getModelIdFromSchema env m) (snd c1)"
  define c3 where "c3 = readExcelData env path (snd c2)"
  define c4 where "c4 = transformRecords env (projr (fst c3)) m (the (projr (fst c2))) (snd c3)"
  define c5 where "c5 = batch_loop env (projr (fst c4)) 0
                          \<lparr>recordsSynced = 0, recordsFailed = 0, batch_errors = []\<rparr> (snd c4)"
  define c6 where "c6 = graph_and_indexes env m (the (projr (fst c2))) (projr (fst c3)) (snd c5)"
  have e1: "emits no_cascade_event s0 (snd c1)"
    unfolding c1_def by (rule emits_call) simp
  have e2: "emits no_cascade_event s0 (snd c2)"
    unfolding c2_def by (rule emits_trans [OF e1]) (rule emits_call, simp)
  have e3: "emits no_cascade_event s0 (snd c3)"
    unfolding c3_def by (rule emits_trans [OF e2]) (rule emits_readExcelData, simp_all)
  have e4: "emits no_cascade_event s0 (snd c4)"
    unfolding c4_def by (rule emits_trans [OF e3]) (rule emits_transformRecords, simp_all)
  have e5: "emits no_cascade_event s0 (snd c5)"
    unfolding c5_def by (rule emits_trans [OF e4]) (rule emits_batch_loop, simp_all)
  have e6: "emits no_cascade_event s0 (snd c6)"
    unfolding c6_def by (rule emits_trans [OF e5]) (rule emits_graph_and_indexes, simp_all)
  have "snd (before_cascade env m options st0) \<in> {snd c1, snd c2, snd c3, snd c4, snd c6}"
    unfolding before_cascade_def c1_def c2_def c3_def c4_def c5_def c6_def s0_def path_def
    by (auto simp: Let_def split: prod.splits sum.splits)
  with e1 e2 e3 e4 e6 show ?thesis
    unfolding s0_def by auto
qed

lemma cascade_options_skip [simp]: "skipCascade (cascade_options options)"
  by (simp add: cascade_options_def)

lemma sync_skip_snd:
  "skipCascade options \<Longrightarrow>
     snd (syncExcelData env m options st0) = snd (before_cascade env m options st0)"
  by (simp add: sync_unfold split: prod.splits sum.splits)

lemma sync_skip_emits:
  "skipCascade options \<Longrightarrow>
     emits no_cascade_event (emit (Enter_syncExcelData m options) st0)
       (snd (syncExcelData env m options st0))"
  by (simp add: sync_skip_snd before_cascade_emits)

lemma cascade_loop_Nil [simp]: "cascade_loop env options [] cs = cs"
  by (simp add: cascade_loop_def)

lemma cascade_loop_Cons:
  "cascade_loop env options (t # ts) cs = cascade_loop env options ts (cascade_step env options t cs)"
  by (simp add: cascade_loop_def)

lemma cascade_step_snd:
  "snd (cascade_step env options t cs) =
     snd (syncExcelData env (fst t) (cascade_options options) (snd cs))"
  by (simp add: cascade_step_def split: prod.splits sum.splits)

lemma cascade_step_emits:
  assumes "P (Enter_syncExcelData (fst t) (cascade_options options))"
      and "\<And>e. no_cascade_event e \<Longrightarrow> P e"
  shows "emits P (snd cs) (snd (cascade_step env options t cs))"
proof -
  have "emits P (snd cs) (emit (Enter_syncExcelData (fst t) (cascade_options options)) (snd cs))"
    using assms(1) by (rule emits_emit)
  moreover have "emits P (emit (Enter_syncExcelData (fst t) (cascade_options options)) (snd cs))
                   (snd (syncExcelData env (fst t) (cascade_options options) (snd cs)))"
    by (rule emits_mono [OF sync_skip_emits]) (simp_all add: assms(2))
  ultimately show ?thesis
    by (simp only: cascade_step_snd) (rule emits_trans)
qed

lemma cascade_loop_emits:
  assumes "\<And>t. t \<in> fst ` set ts \<Longrightarrow> P (Enter_syncExcelData t (cascade_options options))"
      and "\<And>e. no_cascade_event e \<Longrightarrow> P e"
  shows "emits P (snd cs) (snd (cascade_loop env options ts cs))"
  using assms(1)
proof (induction ts arbitrary: cs)
  case Nil
  then show ?case by simp
next
  case (Cons t ts)
  have 1: "emits P (snd cs) (snd (cascade_step env options t cs))"
    by (rule cascade_step_emits) (simp_all add: Cons.prems assms(2))
  have 2: "emits P (snd (cascade_step env options t cs))
             (snd (cascade_loop env options ts (cascade_step env options t cs)))"
    by (rule Cons.IH) (simp add: Cons.prems)
  from 1 2 show ?case
    by (simp only: cascade_loop_Cons) (rule emits_trans)
qed

lemma cascade_loop_entries:
  assumes "(t, n) \<in> set (fst (cascade_loop env options ts cs))"
  shows "(t, n) \<in> set (fst cs) \<or>
         (\<exists>s s' r'. syncExcelData env t (cascade_options options) s = (Inr r', s')
                    \<and> success r' \<and> records_synced r' = n)"
  using assms
proof (induction ts arbitrary: cs)
  case Nil
  then show ?case by simp
next
  case (Cons x ts)
  from Cons.prems have "(t, n) \<in> set (fst (cascade_loop env options ts (cascade_step env options x cs)))"
    by (simp add: cascade_loop_Cons)
  from Cons.IH [OF this] show ?case
  proof
    assume a: "(t, n) \<in> set (fst (cascade_step env options x cs))"
    obtain res s' where r: "syncExcelData env (fst x) (cascade_options options) (snd cs) = (res, s')"
      by (cases "syncExcelData env (fst x) (cascade_options options) (snd cs)")
    show ?thesis
    proof (cases res)
      case (Inl e)
      with a r show ?thesis by (simp add: cascade_step_def)
    next
      case (Inr r')
      with a r show ?thesis
        by (auto simp: cascade_step_def split: if_splits)
    qed
  next
    assume "\<exists>s s' r'. syncExcelData env t (cascade_options options) s = (Inr r', s')
                    \<and> success r' \<and> records_synced r' = n"
    then show ?thesis by blast
  qed
qed

lemma map_set_keys: "fst ` set (map_set k v m) = insert k (fst ` set m)"
proof (induction m)
  case Nil
  then show ?case by simp
next
  case (Cons p m)
  obtain k' v' where p: "p = (k', v')" by (cases p)
  show ?case
    by (cases "k' = k") (simp_all add: p Cons insert_commute)
qed

lemma fk_targets_loop_keys:
  "fst ` set (fk_targets_loop env rs fs acc)
     \<subseteq> fst ` set acc \<union> {t. Some t \<in> fk_location_model ` set fs}"
proof (induction fs arbitrary: acc)
  case Nil
  then show ?case by simp
next
  case (Cons f fs)
  show ?case
  proof (cases "truthy_string (fk_location_model f)")
    case False
    with Cons [of acc] show ?thesis by auto
  next
    case True
    then obtain t where t: "fk_location_model f = Some t"
      by (auto simp: truthy_string_def split: option.splits)
    have "Some t \<in> fk_location_model ` set (f # fs)"
      using t by (metis image_eqI list.set_intros(1))
    with True t Cons [of acc]
         Cons [of "map_set t (fold set_add (collect_fk_ids env f rs [])
                     (case map_get acc t of Some e \<Rightarrow> e | None \<Rightarrow> [])) acc"]
    show ?thesis
      by (auto simp: Let_def map_set_keys)
  qed
qed

lemma extractFkTargets_keys:
  assumes "extractFkTargets env rs m st = (Inr targets, st')" and "t \<in> fst ` set targets"
  shows "\<exists>fs w w'. getFkFieldsFromSchema env m w = (Inr (Some fs), w')
           \<and> Some t \<in> fk_location_model ` set fs"
proof -
  obtain res w' where g: "getFkFieldsFromSchema env m (world st) = (res, w')"
    by (cases "getFkFieldsFromSchema env m (world st)")
  from assms g obtain fs where fs: "res = Inr (Some fs)" and tg: "targets = fk_targets_loop env rs fs []"
    by (cases res; cases "projr res")
       (auto simp: extractFkTargets_def call_eq split: if_splits)
  from fk_targets_loop_keys [of env rs fs "[]"] assms(2) tg
  have "Some t \<in> fk_location_model ` set fs" by auto
  with g fs show ?thesis by blast
qed

lemma sync_emits:
  assumes P1: "\<And>e. no_cascade_event e \<Longrightarrow> P e"
      and P2: "P (Enter_extractFkTargets m)" and P3: "P (Call_getFkFieldsFromSchema m)"
      and P4: "\<And>t. discovered_target env m t \<Longrightarrow> P (Enter_syncExcelData t (cascade_options options))"
  shows "emits P (emit (Enter_syncExcelData m options) st0) (snd (syncExcelData env m options st0))"
proof (cases "skipCascade options")
  case True
  then show ?thesis
    by (rule emits_mono [OF sync_skip_emits]) (rule P1)
next
  case False
  let ?s0 = "emit (Enter_syncExcelData m options) st0"
  obtain res s6 where bc: "before_cascade env m options st0 = (res, s6)"
    by (cases "before_cascade env m options st0")
  have e6: "emits P ?s0 s6"
    using emits_mono [OF before_cascade_emits [of m options st0 env], of P] bc P1 by simp
  show ?thesis
  proof (cases res)
    case (Inl e)
    with bc e6 show ?thesis by (simp add: sync_unfold)
  next
    case (Inr x)
    show ?thesis
    proof (cases x)
      case (Inl r)
      with Inr bc e6 show ?thesis by (simp add: sync_unfold)
    next
      case (Inr y)
      obtain mid records acc where y: "y = (mid, records, acc)" by (cases y)
      obtain tres s7 where ex: "extractFkTargets env records m s6 = (tres, s7)"
        by (cases "extractFkTargets env records m s6")
      have e7: "emits P ?s0 s7"
        using emits_trans [OF e6 emits_extractFkTargets [of P m s6 env records]] ex P2 P3 by simp
      show ?thesis
      proof (cases tres)
        case (Inl e)
        with bc \<open>res = Inr x\<close> Inr y ex e7 False show ?thesis by (simp add: sync_unfold)
      next
        case tg: (Inr targets)
        have "emits P (snd ([] :: (string \<times> nat) list, s7))
                (snd (cascade_loop env options targets ([], s7)))"
        proof (rule cascade_loop_emits)
          fix t assume t: "t \<in> fst ` set targets"
          from ex tg have "extractFkTargets env records m s6 = (Inr targets, s7)" by simp
          from extractFkTargets_keys [OF this t] have "discovered_target env m t"
            unfolding discovered_target_def .
          then show "P (Enter_syncExcelData t (cascade_options options))" by (rule P4)
        qed (rule P1)
        with e7 have "emits P ?s0 (snd (cascade_loop env options targets ([], s7)))"
          by (auto intro: emits_trans)
        with bc \<open>res = Inr x\<close> Inr y ex tg False show ?thesis
          by (simp add: sync_unfold case_prod_beta)
      qed
    qed
  qed
qed

lemma is_sync_entry_simps [simp]:
  "is_sync_entry (Enter_syncExcelData t opts)"
  "\<not> is_sync_entry (Enter_extractFkTargets t)"
  "\<not> is_sync_entry (Call_getFkFieldsFromSchema t)"
  "\<not> is_sync_entry (Call_modelExistsInSchema t)"
  "\<not> is_sync_entry (Call_getModelIdFromSchema t)"
  "\<not> is_sync_entry (Call_existsSync t)"
  "\<not> is_sync_entry (Call_readSheet t)"
  "\<not> is_sync_entry (Enter_transformRecords t)"
  "\<not> is_sync_entry (Call_getModelFieldsFromSchema t)"
  "\<not> is_sync_entry (Call_embedBatch ts)"
  "\<not> is_sync_entry (Call_upsertToUnifiedCollection ps)"
  "\<not> is_sync_entry (Enter_updateKnowledgeGraph t)"
  "\<not> is_sync_entry (Call_upsertRelationship rel)"
  "\<not> is_sync_entry (Call_ensureModelIndexes t)"
  by (simp_all add: is_sync_entry_def)

lemma emits_filter:
  "emits P st st' \<Longrightarrow> (\<And>e. P e \<Longrightarrow> \<not> Q e) \<Longrightarrow> filter Q (trace st') = filter Q (trace st)"
  by (auto simp: emits_def list_all_iff filter_empty_conv)

lemma before_cascade_syncs:
  "filter is_sync_entry (trace (snd (before_cascade env m options st0)))
     = filter is_sync_entry (trace st0) @ [Enter_syncExcelData m options]"
  using emits_filter [OF before_cascade_emits [of m options st0 env], of is_sync_entry]
  by (auto simp: no_cascade_event_def is_sync_entry_def split: event.splits)

lemma sync_skip_syncs:
  "skipCascade options \<Longrightarrow>
     filter is_sync_entry (trace (snd (syncExcelData env m options st0)))
       = filter is_sync_entry (trace st0) @ [Enter_syncExcelData m options]"
  by (simp add: sync_skip_snd before_cascade_syncs)

lemma cascade_loop_syncs:
  "filter is_sync_entry (trace (snd (cascade_loop env options ts cs)))
     = filter is_sync_entry (trace (snd cs))
         @ map (\<lambda>t. Enter_syncExcelData (fst t) (cascade_options options)) ts"
  by (induction ts arbitrary: cs)
     (simp_all add: cascade_loop_Cons cascade_step_snd sync_skip_syncs)

lemma extractFkTargets_syncs:
  "filter is_sync_entry (trace (snd (extractFkTargets env rs m st))) = filter is_sync_entry (trace st)"
  by (rule emits_filter [OF emits_extractFkTargets [of "\<lambda>e. \<not> is_sync_entry e"]]) simp_all

lemma sync_syncs:
  "filter is_sync_entry (trace (snd (syncExcelData env m options st0)))
     = filter is_sync_entry (trace st0) @ Enter_syncExcelData m options #
         (case fst (before_cascade env m options st0) of
            Inr (Inr (mid, records, acc)) \<Rightarrow>
              if skipCascade options then []
              else (case fst (extractFkTargets env records m (snd (before_cascade env m options st0))) of
                      Inr targets \<Rightarrow>
                        map (\<lambda>t. Enter_syncExcelData (fst t) (cascade_options options)) targets
                    | Inl e \<Rightarrow> [])
          | _ \<Rightarrow> [])"
proof -
  obtain res s6 where bc: "before_cascade env m options st0 = (res, s6)"
    by (cases "before_cascade env m options st0")
  have b: "filter is_sync_entry (trace s6)
             = filter is_sync_entry (trace st0) @ [Enter_syncExcelData m options]"
    using before_cascade_syncs [of env m options st0] bc by simp
  show ?thesis
  proof (cases res)
    case (Inl e)
    with bc b show ?thesis by (simp add: sync_unfold)
  next
    case (Inr x)
    show ?thesis
    proof (cases x)
      case (Inl r)
      with Inr bc b show ?thesis by (simp add: sync_unfold)
    next
      case (Inr y)
      obtain mid records acc where y: "y = (mid, records, acc)" by (cases y)
      obtain tres s7 where ex: "extractFkTargets env records m s6 = (tres, s7)"
        by (cases "extractFkTargets env records m s6")
      have e: "filter is_sync_entry (trace s7)
                 = filter is_sync_entry (trace st0) @ [Enter_syncExcelData m options]"
        using extractFkTargets_syncs [of env records m s6] ex b by simp
      show ?thesis
        using bc \<open>res = Inr x\<close> Inr y ex b e
        by (cases tres) (simp_all add: sync_unfold case_prod_beta cascade_loop_syncs)
    qed
  qed
qed

lemma abc_before_cascade:
  "\<exists>acc. fst (before_cascade abc_env ''A'' default_options st) =
          Inr (Inr (1, [[(''id'', JNum 1), (''b_id'', JNum 10)]], acc))"
  by (simp add: before_cascade_def abc_env_def call_eq test_env_sel fld_def default_options_def
        truthy_string_def truthy_id_def data_file_path_def getDefaultDataFilePath_def
        readExcelData_def Let_def transformRecords_def case_prod_beta graph_and_indexes_def)

lemma abc_targets:
  "fst (extractFkTargets abc_env [[(''id'', JNum 1), (''b_id'', JNum 10)]] ''A'' st)
     = Inr [(''B'', [10])]"
  by (simp add: extractFkTargets_def abc_env_def call_eq fixture_defs Let_def set_add_def)

lemma before_cascade_result:
  "(case fst (before_cascade env m options st0) of
      Inl e \<Rightarrow> True
    | Inr (Inl r) \<Rightarrow>
        batch_stage env m options st0 = None \<and> success r = (errors r = [])
          \<and> length (errors r) \<le> 1 \<and> records_synced r = 0 \<and> records_failed r = 0
          \<and> cascaded_models r = None
    | Inr (Inr (mid, records, acc)) \<Rightarrow>
        (\<exists>st5. batch_stage env m options st0 = Some (acc, st5)))"
  unfolding before_cascade_def batch_stage_def
  by (auto simp: Let_def early_result_def split: prod.splits sum.splits)

lemma run_batches_all_ok:
  "fst (run_batches (test_env ms fl [] g) bs k acc st)
     = acc\<lparr>recordsSynced := recordsSynced acc + length (concat bs)\<rparr>"
proof (induction bs arbitrary: k acc st)
  case Nil
  then show ?case by simp
next
  case (Cons b bs)
  obtain res st1 where p: "process_batch (test_env ms fl [] g) b st = (res, st1)"
    by (cases "process_batch (test_env ms fl [] g) b st")
  with process_batch_test_env(1) [of ms fl "[]" g b st] have "res = Inr ()" by simp
  with p show ?case by (simp add: Cons)
qed

lemma batch_loop_all_ok:
  "fst (batch_loop (test_env ms fl [] g) xs 0 acc st)
     = acc\<lparr>recordsSynced := recordsSynced acc + length xs\<rparr>"
  by (simp add: batch_loop_run_batches run_batches_all_ok concat_chunks EMBEDDING_BATCH_SIZE_def)

lemma adv_before_cascade:
  "fst (before_cascade adv_env ''customer'' default_options st) =
     Inr (Inr (1, [[(''id'', JNum 1), (''country_id'', JNum 7)]],
               \<lparr>recordsSynced = 1, recordsFailed = 0, batch_errors = []\<rparr>))"
  by (simp add: before_cascade_def adv_env_def call_eq test_env_sel fld_def default_options_def
        truthy_string_def truthy_id_def data_file_path_def getDefaultDataFilePath_def
        readExcelData_def Let_def transformRecords_def transform_loop_eq rec_get_def object_prototype_def
        case_prod_beta graph_and_indexes_def batch_loop_all_ok)

lemma adv_targets:
  "fst (extractFkTargets adv_env [[(''id'', JNum 1), (''country_id'', JNum 7)]] ''customer'' st)
     = Inr [(''country'', [7])]"
  by (simp add: extractFkTargets_def adv_env_def call_eq fixture_defs Let_def set_add_def)

lemma adv_nested:
  "fst (syncExcelData adv_env ''country'' (cascade_options default_options) st) =
     Inr (early_result False ''country'' 2 ''samples/SAMPLE_country_data.xlsx'' 0
            [''Data file not found: samples/SAMPLE_country_data.xlsx''])"
  by (simp add: sync_unfold before_cascade_def adv_env_def call_eq test_env_sel fld_def
        default_options_def cascade_options_def truthy_string_def truthy_id_def data_file_path_def
        getDefaultDataFilePath_def readExcelData_def Let_def)

lemma adv_root:
  "fst (syncExcelData adv_env ''customer'' default_options st) =
     Inr (final_result ''customer'' 1 ''samples/SAMPLE_customer_data.xlsx''
            [[(''id'', JNum 1), (''country_id'', JNum 7)]]
            \<lparr>recordsSynced = 1, recordsFailed = 0, batch_errors = []\<rparr> [])"
proof -
  obtain res s6 where bc: "before_cascade adv_env ''customer'' default_options st = (res, s6)"
    by (cases "before_cascade adv_env ''customer'' default_options st")
  with adv_before_cascade [of st]
  have res: "res = Inr (Inr (1, [[(''id'', JNum 1), (''country_id'', JNum 7)]],
               \<lparr>recordsSynced = 1, recordsFailed = 0, batch_errors = []\<rparr>))" by simp
  obtain tres s7 where
    ex: "extractFkTargets adv_env [[(''id'', JNum 1), (''country_id'', JNum 7)]] ''customer'' s6
           = (tres, s7)"
    by (cases "extractFkTargets adv_env [[(''id'', JNum 1), (''country_id'', JNum 7)]] ''customer'' s6")
  with adv_targets [of s6] have tres: "tres = Inr [(''country'', [7])]" by simp
  have p: "data_file_path adv_env ''customer'' default_options = ''samples/SAMPLE_customer_data.xlsx''"
    by (simp add: data_file_path_def getDefaultDataFilePath_def adv_env_def test_env_sel
          default_options_def truthy_string_def)
  have c: "fst (cascade_loop adv_env default_options [(''country'', [7])] ([], s7)) = []"
    using adv_nested [of s7]
    by (simp add: cascade_loop_Cons cascade_step_def case_prod_beta early_result_def
          split: sum.splits)
  have d: "\<not> skipCascade default_options" by (simp add: default_options_def)
  show ?thesis
    using bc res ex tres c d by (simp add: sync_unfold case_prod_beta p)
qed

lemma mixed_env_sel:
  "extractFkValueBySchema mixed_env = extract_fk_spec"
  "upsertRelationship mixed_env =
     (\<lambda>rel w. (if rel_field_name rel = ''country_id'' then Inl ''graph store down'' else Inr (), w))"
  by (simp_all add: mixed_env_def test_env_sel)


section \<open>The batch pipeline\<close>

text \<open>
  Claim C1, as stated, fails in its example: 120 records make batches of 50, 50 and 20
  records, so a failure of batch 2 alone leaves 70 records synced and 50 failed, not
  100 and 20. Here the second call of the embedding service throws, in a full run of
  \<^verbatim>\<open>syncExcelData\<close> over a file of 120 records.
\<close>

theorem batch_two_of_three_fails_counterexample:
  "\<not> isl (fst (syncExcelData
         (test_env [(''m'', 3, [fld 1 ''id'' ''ID'' ''integer'' None None])]
            [(''samples/SAMPLE_m_data.xlsx'', replicate 120 [(''id'', JNum 1)])] [1] True)
         ''m'' default_options st_init))
   \<and> records_read (projr (fst (syncExcelData
         (test_env [(''m'', 3, [fld 1 ''id'' ''ID'' ''integer'' None None])]
            [(''samples/SAMPLE_m_data.xlsx'', replicate 120 [(''id'', JNum 1)])] [1] True)
         ''m'' default_options st_init))) = 120
   \<and> errors (projr (fst (syncExcelData
         (test_env [(''m'', 3, [fld 1 ''id'' ''ID'' ''integer'' None None])]
            [(''samples/SAMPLE_m_data.xlsx'', replicate 120 [(''id'', JNum 1)])] [1] True)
         ''m'' default_options st_init))) = [''Batch 2 failed: embedding service down'']
   \<and> records_synced (projr (fst (syncExcelData
         (test_env [(''m'', 3, [fld 1 ''id'' ''ID'' ''integer'' None None])]
            [(''samples/SAMPLE_m_data.xlsx'', replicate 120 [(''id'', JNum 1)])] [1] True)
         ''m'' default_options st_init))) = 70
   \<and> records_failed (projr (fst (syncExcelData
         (test_env [(''m'', 3, [fld 1 ''id'' ''ID'' ''integer'' None None])]
            [(''samples/SAMPLE_m_data.xlsx'', replicate 120 [(''id'', JNum 1)])] [1] True)
         ''m'' default_options st_init))) = 50"
proof -
  have "fst (syncExcelData
         (test_env [(''m'', 3, [fld 1 ''id'' ''ID'' ''integer'' None None])]
            [(''samples/SAMPLE_m_data.xlsx'', replicate 120 [(''id'', JNum 1)])] [1] True)
         ''m'' default_options st_init) =
        Inr \<lparr>success = False, res_model_name = ''m'', res_model_id = 3,
             file_path = ''samples/SAMPLE_m_data.xlsx'', records_read = 120,
             records_synced = 70, records_failed = 50,
             errors = [''Batch 2 failed: embedding service down''], cascaded_models = None\<rparr>"
    by (subst syncExcelData.simps)
       (simp add: call_eq test_env_sel data_file_path_def getDefaultDataFilePath_def
          default_options_def truthy_string_def truthy_id_def readExcelData_def Let_def
          transformRecords_def transform_loop_eq rec_get_def object_prototype_def case_prod_beta
          graph_and_indexes_def extractFkTargets_def fld_def st_init_def
          batch_loop_second_fails final_result_def)
  then show ?thesis by simp
qed

text \<open>
  Claim C1, amended. The batch loop is the batch pipeline of the specification run on
  the contiguous batches of at most 50 records of its input, numbered from 1: the
  batches concatenate to the input, none is empty, a failure adds one error naming the
  batch and adds the batch's size to the failed records, and the loop goes on. Every
  record ends up counted as synced or as failed. A batch fails exactly when the
  embedding service throws, or returns a number of embeddings other than the batch
  size, or the store write throws. With 120 records and a failure in batch 2 only,
  the loop ends with 70 records synced, 50 failed and the single error of batch 2.
\<close>

theorem batch_failure_isolation:
  "batch_loop env xs 0 acc st = run_batches env (chunks 50 xs) 1 acc st
   \<and> concat (chunks 50 xs) = xs
   \<and> (\<forall>b \<in> set (chunks 50 xs). b \<noteq> [] \<and> length b \<le> 50)
   \<and> recordsSynced (fst (batch_loop env xs 0 acc st)) + recordsFailed (fst (batch_loop env xs 0 acc st))
        = recordsSynced acc + recordsFailed acc + length xs
   \<and> fst (process_batch env batch st) =
        (case embedBatch env (map vector_text batch) (world st) of
           (Inl e, w) \<Rightarrow> Inl e
         | (Inr embeddings, w) \<Rightarrow>
             if length embeddings \<noteq> length batch
             then Inl (''Embedding count mismatch: '' @ show_nat (length embeddings) @ '' vs ''
                        @ show_nat (length batch))
             else fst (upsertToUnifiedCollection env
                         (map (\<lambda>idx. build_point env w embeddings idx (batch ! idx))
                            [0..<length batch]) w))
   \<and> (length xs = 120
        \<and> process_batch env (take 50 xs) st = (Inr (), st1)
        \<and> process_batch env (take 50 (drop 50 xs)) st1 = (Inl msg, st2)
        \<and> process_batch env (drop 100 xs) st2 = (Inr (), st3)
      \<longrightarrow> batch_loop env xs 0 \<lparr>recordsSynced = 0, recordsFailed = 0, batch_errors = []\<rparr> st
            = (\<lparr>recordsSynced = 70, recordsFailed = 50,
                 batch_errors = [''Batch 2 failed: '' @ msg]\<rparr>, st3))"
proof -
  have r: "batch_loop env xs 0 a s = run_batches env (chunks 50 xs) 1 a s" for a s
    using batch_loop_run_batches [of env xs 0 a s] by (simp add: EMBEDDING_BATCH_SIZE_def)
  have c: "concat (chunks 50 xs) = xs"
    by (simp add: concat_chunks)
  have b: "\<forall>b \<in> set (chunks 50 xs). b \<noteq> [] \<and> length b \<le> 50"
    using chunks_bounds [of 50 _ xs] by simp
  have t: "recordsSynced (fst (batch_loop env xs 0 acc st)) + recordsFailed (fst (batch_loop env xs 0 acc st))
        = recordsSynced acc + recordsFailed acc + length xs"
    by (simp only: r run_batches_total c)
  have e: "batch_loop env xs 0 \<lparr>recordsSynced = 0, recordsFailed = 0, batch_errors = []\<rparr> st
            = (\<lparr>recordsSynced = 70, recordsFailed = 50,
                 batch_errors = [''Batch 2 failed: '' @ msg]\<rparr>, st3)"
    if "length xs = 120" "process_batch env (take 50 xs) st = (Inr (), st1)"
       "process_batch env (take 50 (drop 50 xs)) st1 = (Inl msg, st2)"
       "process_batch env (drop 100 xs) st2 = (Inr (), st3)"
    using that by (simp add: r chunks_120 show_nat_digit digit_char_def)
  have p: "fst (process_batch env batch st) =
        (case embedBatch env (map vector_text batch) (world st) of
           (Inl e, w) \<Rightarrow> Inl e
         | (Inr embeddings, w) \<Rightarrow>
             if length embeddings \<noteq> length batch
             then Inl (''Embedding count mismatch: '' @ show_nat (length embeddings) @ '' vs ''
                        @ show_nat (length batch))
             else fst (upsertToUnifiedCollection env
                         (map (\<lambda>idx. build_point env w embeddings idx (batch ! idx))
                            [0..<length batch]) w))"
    by (simp add: process_batch_def call_eq Let_def split: prod.splits sum.splits)
  from r c b t p e show ?thesis by blast
qed

text \<open>120 records, with the second call of the embedding service failing.\<close>

theorem batch_failure_isolation_witness:
  "fst (batch_loop (test_env [] [] [1] True) (replicate 120 t_one) 0
         \<lparr>recordsSynced = 0, recordsFailed = 0, batch_errors = []\<rparr> st_init)
     = \<lparr>recordsSynced = 70, recordsFailed = 50,
        batch_errors = [''Batch 2 failed: embedding service down'']\<rparr>
   \<and> map length (chunks 50 (replicate 120 t_one)) = [50, 50, 20]"
proof -
  let ?e = "test_env [] [] [1] True"
  let ?xs = "replicate 120 t_one"
  let ?s1 = "snd (process_batch ?e (take 50 ?xs) st_init)"
  let ?s2 = "snd (process_batch ?e (take 50 (drop 50 ?xs)) ?s1)"
  let ?s3 = "snd (process_batch ?e (drop 100 ?xs) ?s2)"
  have w0: "world st_init = 0" by (simp add: st_init_def)
  have 1: "process_batch ?e (take 50 ?xs) st_init = (Inr (), ?s1)"
    by (rule prod_eqI) (simp_all add: process_batch_test_env w0)
  have 2: "process_batch ?e (take 50 (drop 50 ?xs)) ?s1 = (Inl ''embedding service down'', ?s2)"
    by (rule prod_eqI) (simp_all add: process_batch_test_env w0)
  have 3: "process_batch ?e (drop 100 ?xs) ?s2 = (Inr (), ?s3)"
    by (rule prod_eqI) (simp_all add: process_batch_test_env w0)
  have l: "length ?xs = 120" by simp
  note T = batch_failure_isolation [where env = ?e and xs = ?xs and st = st_init and ?st1.0 = ?s1
             and ?st2.0 = ?s2 and ?st3.0 = ?s3 and msg = "''embedding service down''"]
  from T l 1 2 3
  have a: "batch_loop ?e ?xs 0 \<lparr>recordsSynced = 0, recordsFailed = 0, batch_errors = []\<rparr> st_init
            = (\<lparr>recordsSynced = 70, recordsFailed = 50,
                 batch_errors = [''Batch 2 failed: '' @ ''embedding service down'']\<rparr>, ?s3)"
    by blast
  have b: "map length (chunks 50 ?xs) = [50, 50, 20]"
    by (simp add: chunks_120)
  from a b show ?thesis by simp
qed

section \<open>The cascade\<close>

text \<open>
  Claim C2. The trace a call of \<^verbatim>\<open>syncExcelData\<close> adds starts with its own entry.
  Every later entry into \<^verbatim>\<open>syncExcelData\<close> (a nested call) has cascade disabled, carries
  the options of line 567 and names the target model of an FK field of the root's
  model. A call with cascade disabled adds no cascade event at all: it does not enter
  \<^verbatim>\<open>extractFkTargets\<close>, does not look up FK fields and makes no nested call.
\<close>

theorem cascade_one_hop:
  "\<exists>evs. trace (snd (syncExcelData env m options st0))
            = trace st0 @ Enter_syncExcelData m options # evs
         \<and> list_all (nested_sync_ok env m options) evs
         \<and> (skipCascade options \<longrightarrow> list_all no_cascade_event evs)"
proof -
  have "emits (nested_sync_ok env m options) (emit (Enter_syncExcelData m options) st0)
          (snd (syncExcelData env m options st0))"
    by (rule sync_emits)
       (auto simp: nested_sync_ok_def no_cascade_event_def split: event.splits)
  then obtain evs where evs: "trace (snd (syncExcelData env m options st0))
            = trace st0 @ Enter_syncExcelData m options # evs"
    and ok: "list_all (nested_sync_ok env m options) evs"
    by (auto simp: emits_def)
  have "list_all no_cascade_event evs" if "skipCascade options"
  proof -
    from sync_skip_emits [OF that, of m st0 env] obtain evs' where
      "trace (snd (syncExcelData env m options st0))
         = trace st0 @ Enter_syncExcelData m options # evs'" and "list_all no_cascade_event evs'"
      by (auto simp: emits_def)
    with evs show ?thesis by simp
  qed
  with evs ok show ?thesis by blast
qed

text \<open>
  With A referring to B and B referring to C, the sync of A enters A and B and never
  C; the sync of B with cascade disabled enters B only.
\<close>

theorem cascade_one_hop_witness:
  "filter is_sync_entry (trace (snd (syncExcelData abc_env ''B'' (cascade_options default_options) st_init)))
     = [Enter_syncExcelData ''B'' (cascade_options default_options)]
   \<and> filter is_sync_entry (trace (snd (syncExcelData abc_env ''A'' default_options st_init)))
     = [Enter_syncExcelData ''A'' default_options,
        Enter_syncExcelData ''B'' (cascade_options default_options)]"
proof -
  have t0: "trace st_init = []" by (simp add: st_init_def)
  from cascade_one_hop [of abc_env "''B''" "cascade_options default_options" st_init]
  obtain evs where
    tr: "trace (snd (syncExcelData abc_env ''B'' (cascade_options default_options) st_init))
           = Enter_syncExcelData ''B'' (cascade_options default_options) # evs"
    and nc: "list_all no_cascade_event evs"
    by (auto simp: t0)
  have "filter is_sync_entry evs = []"
    using nc by (auto simp: filter_empty_conv list_all_iff no_cascade_event_def is_sync_entry_def
                      split: event.splits)
  with tr have 1: "filter is_sync_entry
      (trace (snd (syncExcelData abc_env ''B'' (cascade_options default_options) st_init)))
     = [Enter_syncExcelData ''B'' (cascade_options default_options)]"
    by simp
  obtain acc where bc: "fst (before_cascade abc_env ''A'' default_options st_init) =
          Inr (Inr (1, [[(''id'', JNum 1), (''b_id'', JNum 10)]], acc))"
    using abc_before_cascade by blast
  have 2: "filter is_sync_entry (trace (snd (syncExcelData abc_env ''A'' default_options st_init)))
     = [Enter_syncExcelData ''A'' default_options,
        Enter_syncExcelData ''B'' (cascade_options default_options)]"
    by (simp add: sync_syncs bc abc_targets t0) (simp add: default_options_def)
  from 1 2 show ?thesis by blast
qed

section \<open>Success and the error list\<close>

text \<open>
  What holds of every result \<^verbatim>\<open>syncExcelData\<close> returns: \<open>success\<close> holds exactly when
  \<open>errors\<close> is empty. When the run got through the batch loop, \<open>errors\<close> and the two
  counters are those with which the batch loop ended: nothing that happens afterwards
  (graph edges, cascade) is added to them. Otherwise the result is an early return
  with at most one error and zero counters. Every entry of \<open>cascaded_models\<close> is a
  target whose nested sync returned a successful result; a target whose sync fails
  or throws is left out. This says nothing of a run that returns no result.
\<close>

lemma returned_result:
  assumes "syncExcelData env m options st0 = (Inr r, st')"
  shows "success r = (errors r = [])
       \<and> (case batch_stage env m options st0 of
            Some (acc, st5) \<Rightarrow>
              errors r = batch_errors acc \<and> records_synced r = recordsSynced acc
                \<and> records_failed r = recordsFailed acc
          | None \<Rightarrow> length (errors r) \<le> 1 \<and> records_synced r = 0 \<and> records_failed r = 0)
       \<and> (\<forall>cs t n. cascaded_models r = Some cs \<and> (t, n) \<in> set cs \<longrightarrow>
             (\<exists>s s' r'. syncExcelData env t (cascade_options options) s = (Inr r', s')
                        \<and> success r' \<and> records_synced r' = n))"
proof -
  obtain res s6 where bc: "before_cascade env m options st0 = (res, s6)"
    by (cases "before_cascade env m options st0")
  note R = before_cascade_result [of env m options st0]
  show ?thesis
  proof (cases res)
    case (Inl e)
    with assms bc show ?thesis by (simp add: sync_unfold)
  next
    case (Inr x)
    show ?thesis
    proof (cases x)
      case (Inl r0)
      with Inr bc assms have "r = r0" by (simp add: sync_unfold)
      with R bc Inr Inl show ?thesis by simp
    next
      case (Inr y)
      obtain mid records acc where y: "y = (mid, records, acc)" by (cases y)
      from R bc \<open>res = Inr x\<close> Inr y obtain st5 where
        bs: "batch_stage env m options st0 = Some (acc, st5)" by auto
      have "\<exists>cs. r = final_result m mid (data_file_path env m options) records acc cs
              \<and> (\<forall>t n. (t, n) \<in> set cs \<longrightarrow>
                    (\<exists>s s' r'. syncExcelData env t (cascade_options options) s = (Inr r', s')
                               \<and> success r' \<and> records_synced r' = n))"
      proof (cases "skipCascade options")
        case True
        with assms bc \<open>res = Inr x\<close> Inr y
        have "r = final_result m mid (data_file_path env m options) records acc []"
          by (simp add: sync_unfold)
        then show ?thesis by auto
      next
        case False
        obtain tres s7 where ex: "extractFkTargets env records m s6 = (tres, s7)"
          by (cases "extractFkTargets env records m s6")
        with assms bc \<open>res = Inr x\<close> Inr y False obtain targets where tg: "tres = Inr targets"
          by (cases tres) (auto simp: sync_unfold)
        let ?c = "cascade_loop env options targets ([], s7)"
        from assms bc \<open>res = Inr x\<close> Inr y False ex tg
        have "r = final_result m mid (data_file_path env m options) records acc (fst ?c)"
          by (simp add: sync_unfold case_prod_beta)
        moreover have "\<exists>s s' r'. syncExcelData env t (cascade_options options) s = (Inr r', s')
                               \<and> success r' \<and> records_synced r' = n"
          if "(t, n) \<in> set (fst ?c)" for t n
          using cascade_loop_entries [OF that] by simp
        ultimately show ?thesis by blast
      qed
      then obtain cs where r: "r = final_result m mid (data_file_path env m options) records acc cs"
        and ent: "\<forall>t n. (t, n) \<in> set cs \<longrightarrow>
                    (\<exists>s s' r'. syncExcelData env t (cascade_options options) s = (Inr r', s')
                               \<and> success r' \<and> records_synced r' = n)"
        by blast
      have 1: "success r = (errors r = [])" by (simp add: r final_result_def)
      have 2: "errors r = batch_errors acc \<and> records_synced r = recordsSynced acc
                \<and> records_failed r = recordsFailed acc"
        by (simp add: r final_result_def)
      have 3: "cascaded_models r = Some cs' \<Longrightarrow> cs' = cs" for cs'
        by (simp add: r final_result_def split: if_splits)
      from 1 2 3 ent bs show ?thesis by auto
    qed
  qed
qed

text \<open>
  A run in which the graph store rejects the edge and the cascade target has no data
  file: the result is successful, without errors and without \<open>cascaded_models\<close>.
\<close>

lemma returned_result_adv_env:
  "\<not> isl (fst (syncExcelData adv_env ''customer'' default_options st_init))
   \<and> success (projr (fst (syncExcelData adv_env ''customer'' default_options st_init)))
   \<and> errors (projr (fst (syncExcelData adv_env ''customer'' default_options st_init))) = []
   \<and> records_synced (projr (fst (syncExcelData adv_env ''customer'' default_options st_init))) = 1
   \<and> cascaded_models (projr (fst (syncExcelData adv_env ''customer'' default_options st_init))) = None
   \<and> fst (updateKnowledgeGraph adv_env ''customer'' 1 [[(''id'', JNum 1), (''country_id'', JNum 7)]]
            [fld 1 ''id'' ''ID'' ''integer'' None None,
             fld 2 ''country_id'' ''Country'' ''many2one'' (Some ''country'') (Some 2)] st_init) = 0
   \<and> \<not> success (projr (fst (syncExcelData adv_env ''country'' (cascade_options default_options) st_init)))"
proof -
  let ?run = "syncExcelData adv_env ''customer'' default_options st_init"
  let ?r = "projr (fst ?run)"
  have ni: "\<not> isl (fst ?run)" by (simp add: adv_root)
  have f: "fst ?run = Inr ?r" by (simp add: adv_root)
  then have run: "?run = (Inr ?r, snd ?run)" by (metis prod.collapse)
  have e: "errors ?r = []" and n: "records_synced ?r = 1" and c: "cascaded_models ?r = None"
    by (simp_all add: adv_root final_result_def)
  from returned_result [OF run] e have s: "success ?r" by simp
  have g: "fst (updateKnowledgeGraph adv_env ''customer'' 1 [[(''id'', JNum 1), (''country_id'', JNum 7)]]
            [fld 1 ''id'' ''ID'' ''integer'' None None,
             fld 2 ''country_id'' ''Country'' ''many2one'' (Some ''country'') (Some 2)] st_init) = 0"
    by (simp add: updateKnowledgeGraph_def graph_loop_all_fail adv_env_def test_env_sel)
  have t: "\<not> success (projr (fst (syncExcelData adv_env ''country'' (cascade_options default_options) st_init)))"
    by (simp add: adv_nested early_result_def)
  from ni e n c s g t show ?thesis by blast
qed


section \<open>Fatal-to-call errors\<close>

text \<open>
  Claim C4. When the schema does not know the model, or yields no usable model id
  (none, or zero), or the data file does not exist, or reading it throws,
  \<^verbatim>\<open>syncExcelData\<close> returns a result with \<open>success = False\<close>, exactly one error and
  all three counters zero. The trace shows what it did: the schema lookups and the file
  access that precede the failure, and nothing else; no transform, embedding, store,
  graph, index or cascade operation.
\<close>

theorem fatal_to_call:
  "(modelExistsInSchema env m (world st0) = (Inr False, w1) \<longrightarrow>
      (\<exists>r. syncExcelData env m options st0 =
              (Inr r, \<lparr>world = w1, trace = trace st0 @
                 [Enter_syncExcelData m options, Call_modelExistsInSchema m]\<rparr>)
           \<and> zero_progress_failure r))
   \<and> (modelExistsInSchema env m (world st0) = (Inr True, w1)
        \<and> getModelIdFromSchema env m w1 = (Inr mid, w2) \<and> (mid = None \<or> mid = Some 0) \<longrightarrow>
      (\<exists>r. syncExcelData env m options st0 =
              (Inr r, \<lparr>world = w2, trace = trace st0 @
                 [Enter_syncExcelData m options, Call_modelExistsInSchema m,
                  Call_getModelIdFromSchema m]\<rparr>)
           \<and> zero_progress_failure r))
   \<and> (modelExistsInSchema env m (world st0) = (Inr True, w1)
        \<and> getModelIdFromSchema env m w1 = (Inr (Some i), w2) \<and> i \<noteq> 0
        \<and> \<not> existsSync env (data_file_path env m options) w2 \<longrightarrow>
      (\<exists>r. syncExcelData env m options st0 =
              (Inr r, \<lparr>world = w2, trace = trace st0 @
                 [Enter_syncExcelData m options, Call_modelExistsInSchema m,
                  Call_getModelIdFromSchema m, Call_existsSync (data_file_path env m options)]\<rparr>)
           \<and> zero_progress_failure r))
   \<and> (modelExistsInSchema env m (world st0) = (Inr True, w1)
        \<and> getModelIdFromSchema env m w1 = (Inr (Some i), w2) \<and> i \<noteq> 0
        \<and> existsSync env (data_file_path env m options) w2
        \<and> readSheet env (data_file_path env m options) w2 = (Inl msg, w3) \<longrightarrow>
      (\<exists>r. syncExcelData env m options st0 =
              (Inr r, \<lparr>world = w3, trace = trace st0 @
                 [Enter_syncExcelData m options, Call_modelExistsInSchema m,
                  Call_getModelIdFromSchema m, Call_existsSync (data_file_path env m options),
                  Call_readSheet (data_file_path env m options)]\<rparr>)
           \<and> zero_progress_failure r))"
  apply (intro conjI impI)
  apply (subst syncExcelData.simps, simp add: call_eq Let_def early_result_def zero_progress_failure_def)
  apply (subst syncExcelData.simps, auto simp add: call_eq Let_def early_result_def zero_progress_failure_def truthy_id_def)[1]
  apply (subst syncExcelData.simps, simp add: call_eq Let_def early_result_def zero_progress_failure_def truthy_id_def readExcelData_def)
  apply (subst syncExcelData.simps, simp add: call_eq Let_def early_result_def zero_progress_failure_def truthy_id_def readExcelData_def)
  done

text \<open>The four cases on concrete environments.\<close>

theorem fatal_to_call_witness:
  "(\<exists>r. syncExcelData (test_env [] [] [] True) ''ghost'' default_options st_init =
          (Inr r, \<lparr>world = 0, trace =
             [Enter_syncExcelData ''ghost'' default_options, Call_modelExistsInSchema ''ghost'']\<rparr>)
        \<and> zero_progress_failure r)
   \<and> (\<exists>r. syncExcelData (test_env [(''m'', 0, [])] [] [] True) ''m'' default_options st_init =
          (Inr r, \<lparr>world = 0, trace =
             [Enter_syncExcelData ''m'' default_options, Call_modelExistsInSchema ''m'',
              Call_getModelIdFromSchema ''m'']\<rparr>)
        \<and> zero_progress_failure r)
   \<and> (\<exists>r. syncExcelData (test_env [(''m'', 3, [])] [] [] True) ''m'' default_options st_init =
          (Inr r, \<lparr>world = 0, trace =
             [Enter_syncExcelData ''m'' default_options, Call_modelExistsInSchema ''m'',
              Call_getModelIdFromSchema ''m'', Call_existsSync ''samples/SAMPLE_m_data.xlsx'']\<rparr>)
        \<and> zero_progress_failure r)
   \<and> (\<exists>r. syncExcelData
             ((test_env [(''m'', 3, [])] [(''samples/SAMPLE_m_data.xlsx'', [])] [] True)
                \<lparr>readSheet := \<lambda>p w. (Inl ''not a workbook'', w)\<rparr>)
             ''m'' default_options st_init =
          (Inr r, \<lparr>world = 0, trace =
             [Enter_syncExcelData ''m'' default_options, Call_modelExistsInSchema ''m'',
              Call_getModelIdFromSchema ''m'', Call_existsSync ''samples/SAMPLE_m_data.xlsx'',
              Call_readSheet ''samples/SAMPLE_m_data.xlsx'']\<rparr>)
        \<and> zero_progress_failure r)"
proof -
  let ?e1 = "test_env [] [] [] True"
  let ?e2 = "test_env [(''m'', 0, [])] [] [] True"
  let ?e3 = "test_env [(''m'', 3, [])] [] [] True"
  let ?e4 = "(test_env [(''m'', 3, [])] [(''samples/SAMPLE_m_data.xlsx'', [])] [] True)
                \<lparr>readSheet := \<lambda>p w. (Inl ''not a workbook'', w)\<rparr>"
  have p: "data_file_path ?e3 ''m'' default_options = ''samples/SAMPLE_m_data.xlsx''"
          "data_file_path ?e4 ''m'' default_options = ''samples/SAMPLE_m_data.xlsx''"
    by (simp_all add: data_file_path_def getDefaultDataFilePath_def test_env_def
          default_options_def truthy_string_def)
  have a: "modelExistsInSchema ?e1 ''ghost'' (world st_init) = (Inr False, 0)"
    by (simp add: test_env_def st_init_def)
  have b: "modelExistsInSchema ?e2 ''m'' (world st_init) = (Inr True, 0)
            \<and> getModelIdFromSchema ?e2 ''m'' 0 = (Inr (Some 0), 0) \<and> (Some (0::int) = None \<or> Some (0::int) = Some 0)"
    by (simp add: test_env_def st_init_def)
  have c: "modelExistsInSchema ?e3 ''m'' (world st_init) = (Inr True, 0)
            \<and> getModelIdFromSchema ?e3 ''m'' 0 = (Inr (Some 3), 0) \<and> (3::int) \<noteq> 0
            \<and> \<not> existsSync ?e3 (data_file_path ?e3 ''m'' default_options) 0"
    by (simp add: p) (simp add: test_env_def st_init_def)
  have d: "modelExistsInSchema ?e4 ''m'' (world st_init) = (Inr True, 0)
            \<and> getModelIdFromSchema ?e4 ''m'' 0 = (Inr (Some 3), 0) \<and> (3::int) \<noteq> 0
            \<and> existsSync ?e4 (data_file_path ?e4 ''m'' default_options) 0
            \<and> readSheet ?e4 (data_file_path ?e4 ''m'' default_options) 0 = (Inl ''not a workbook'', 0)"
    by (simp add: p) (simp add: test_env_def st_init_def)
  have t: "trace st_init = []" by (simp add: st_init_def)
  from a fatal_to_call [where env = ?e1 and m = "''ghost''" and ?st0.0 = st_init and ?w1.0 = 0
         and options = default_options]
  have 1: "\<exists>r. syncExcelData ?e1 ''ghost'' default_options st_init =
          (Inr r, \<lparr>world = 0, trace =
             [Enter_syncExcelData ''ghost'' default_options, Call_modelExistsInSchema ''ghost'']\<rparr>)
        \<and> zero_progress_failure r"
    by (simp add: t)
  from b fatal_to_call [where env = ?e2 and m = "''m''" and ?st0.0 = st_init and ?w1.0 = 0
         and ?w2.0 = 0 and mid = "Some 0" and options = default_options]
  have 2: "\<exists>r. syncExcelData ?e2 ''m'' default_options st_init =
          (Inr r, \<lparr>world = 0, trace =
             [Enter_syncExcelData ''m'' default_options, Call_modelExistsInSchema ''m'',
              Call_getModelIdFromSchema ''m'']\<rparr>)
        \<and> zero_progress_failure r"
    by (simp add: t)
  from c fatal_to_call [where env = ?e3 and m = "''m''" and ?st0.0 = st_init and ?w1.0 = 0
         and ?w2.0 = 0 and i = 3 and options = default_options]
  have 3: "\<exists>r. syncExcelData ?e3 ''m'' default_options st_init =
          (Inr r, \<lparr>world = 0, trace =
             [Enter_syncExcelData ''m'' default_options, Call_modelExistsInSchema ''m'',
              Call_getModelIdFromSchema ''m'', Call_existsSync ''samples/SAMPLE_m_data.xlsx'']\<rparr>)
        \<and> zero_progress_failure r"
    by (simp add: t p)
  from d fatal_to_call [where env = ?e4 and m = "''m''" and ?st0.0 = st_init and ?w1.0 = 0
         and ?w2.0 = 0 and ?w3.0 = 0 and i = 3 and msg = "''not a workbook''" and options = default_options]
  have 4: "\<exists>r. syncExcelData ?e4 ''m'' default_options st_init =
          (Inr r, \<lparr>world = 0, trace =
             [Enter_syncExcelData ''m'' default_options, Call_modelExistsInSchema ''m'',
              Call_getModelIdFromSchema ''m'', Call_existsSync ''samples/SAMPLE_m_data.xlsx'',
              Call_readSheet ''samples/SAMPLE_m_data.xlsx'']\<rparr>)
        \<and> zero_progress_failure r"
    by (simp add: t p)
  from 1 2 3 4 show ?thesis by blast
qed

section \<open>The graph edge updater\<close>

text \<open>
  Claim C5. \<^verbatim>\<open>updateKnowledgeGraph\<close> calls \<^verbatim>\<open>upsertRelationship\<close> once for every many2one
  field that declares a target model name and a target model id and for which at least
  one record yields an FK id, in schema order, and for no other field. The edge carries
  \<open>edge_count\<close>, the number of input records, and \<open>unique_targets\<close>, the number of
  distinct FK ids the records yield. The function always returns, and
  \<open>edges_created\<close> is the number of those upserts that did not throw: a failed upsert
  is not counted, does not undo the count so far, and the remaining fields are still
  processed, each in the world the upsert before it left. So \<open>edges_created\<close> is at
  most the number of upserts, 0 when every upsert fails, the number of upserts when
  none fails, and, when the outcome of an upsert depends on the edge alone, the number
  of edges whose upsert does not fail.
\<close>

theorem graph_edges_per_fk_field:
  "trace (snd (updateKnowledgeGraph env m mid records fs st)) =
     trace st @ Enter_updateKnowledgeGraph m #
       map (\<lambda>f. Call_upsertRelationship (expected_edge env m mid records f))
         (filter (\<lambda>f. is_fk_field f \<and> resolved_ids env f records \<noteq> []) fs)
   \<and> fst (updateKnowledgeGraph env m mid records fs st)
        \<le> length (filter (\<lambda>f. is_fk_field f \<and> resolved_ids env f records \<noteq> []) fs)
   \<and> ((\<forall>rel w. isl (fst (upsertRelationship env rel w))) \<longrightarrow>
          fst (updateKnowledgeGraph env m mid records fs st) = 0)
   \<and> ((\<forall>rel w. \<not> isl (fst (upsertRelationship env rel w))) \<longrightarrow>
          fst (updateKnowledgeGraph env m mid records fs st)
            = length (filter (\<lambda>f. is_fk_field f \<and> resolved_ids env f records \<noteq> []) fs))
   \<and> fst (updateKnowledgeGraph env m mid records fs st)
        = fst (upsert_run env (fk_edges env m mid records fs) (world st))
   \<and> world (snd (updateKnowledgeGraph env m mid records fs st))
        = snd (upsert_run env (fk_edges env m mid records fs) (world st))
   \<and> ((\<forall>rel w. isl (fst (upsertRelationship env rel w)) = fails rel) \<longrightarrow>
          fst (updateKnowledgeGraph env m mid records fs st)
            = length (filter (\<lambda>rel. \<not> fails rel) (fk_edges env m mid records fs)))"
proof -
  have f: "filter (\<lambda>f. resolved_ids env f records \<noteq> []) (filter is_fk_field fs)
             = filter (\<lambda>f. is_fk_field f \<and> resolved_ids env f records \<noteq> []) fs"
    by (simp add: conj_commute)
  have 1: "trace (snd (updateKnowledgeGraph env m mid records fs st)) =
     trace st @ Enter_updateKnowledgeGraph m #
       map (\<lambda>f. Call_upsertRelationship (expected_edge env m mid records f))
         (filter (\<lambda>f. is_fk_field f \<and> resolved_ids env f records \<noteq> []) fs)"
    by (simp add: updateKnowledgeGraph_def graph_loop_trace f)
  have 2: "fst (updateKnowledgeGraph env m mid records fs st)
        \<le> length (filter (\<lambda>f. is_fk_field f \<and> resolved_ids env f records \<noteq> []) fs)"
    using graph_loop_count [of env m mid records "filter is_fk_field fs" 0]
    by (simp add: updateKnowledgeGraph_def f)
  have 3: "(\<forall>rel w. isl (fst (upsertRelationship env rel w))) \<longrightarrow>
          fst (updateKnowledgeGraph env m mid records fs st) = 0"
    by (simp add: updateKnowledgeGraph_def graph_loop_all_fail)
  have 4: "(\<forall>rel w. \<not> isl (fst (upsertRelationship env rel w))) \<longrightarrow>
          fst (updateKnowledgeGraph env m mid records fs st)
            = length (filter (\<lambda>f. is_fk_field f \<and> resolved_ids env f records \<noteq> []) fs)"
    by (simp add: updateKnowledgeGraph_def graph_loop_all_ok f)
  have 5: "fst (updateKnowledgeGraph env m mid records fs st)
        = fst (upsert_run env (fk_edges env m mid records fs) (world st))"
    by (simp add: updateKnowledgeGraph_def graph_loop_run f fk_edges_def)
  have 6: "world (snd (updateKnowledgeGraph env m mid records fs st))
        = snd (upsert_run env (fk_edges env m mid records fs) (world st))"
    by (simp add: updateKnowledgeGraph_def graph_loop_run f fk_edges_def)
  have 7: "(\<forall>rel w. isl (fst (upsertRelationship env rel w)) = fails rel) \<longrightarrow>
          fst (updateKnowledgeGraph env m mid records fs st)
            = length (filter (\<lambda>rel. \<not> fails rel) (fk_edges env m mid records fs))"
    by (simp add: 5 upsert_run_count)
  from 1 2 3 4 5 6 7 show ?thesis by blast
qed

text \<open>
  Three records and five fields, of which two get an edge. With a graph store that is
  up both upserts count; with one that is down none does; with one that rejects the
  edge of \<^verbatim>\<open>country_id\<close> only, both upserts are made and one is counted.
\<close>

theorem graph_edges_per_fk_field_witness:
  "trace (snd (updateKnowledgeGraph (test_env [] [] [] True) ''customer'' 3
       [[(''id'', JNum 1), (''country_id'', JNum 7), (''owner_id'', JArr [JNum 5, JStr ''Ann''])],
        [(''id'', JNum 2), (''country_id'', JNum 7)],
        [(''id'', JNum 3), (''country_id'', JNum 8)]]
       [fld 1 ''id'' ''ID'' ''integer'' None None,
        fld 3 ''country_id'' ''Country'' ''many2one'' (Some ''country'') (Some 4),
        fld 5 ''owner_id'' ''Owner'' ''many2one'' (Some ''user'') (Some 5),
        fld 6 ''agent_id'' ''Agent'' ''many2one'' (Some ''agent'') (Some 6),
        fld 7 ''ref_id'' ''Ref'' ''many2one'' None None] st_init)) =
     [Enter_updateKnowledgeGraph ''customer'',
      Call_upsertRelationship
        \<lparr>source_model = ''customer'', source_model_id = 3, rel_field_id = 3,
         rel_field_name = ''country_id'', rel_field_label = ''Country'',
         rel_field_type = ''many2one'', target_model = Some ''country'',
         target_model_id = Some 4, edge_count = 3, unique_targets = 2,
         cascade_source = ''customer''\<rparr>,
      Call_upsertRelationship
        \<lparr>source_model = ''customer'', source_model_id = 3, rel_field_id = 5,
         rel_field_name = ''owner_id'', rel_field_label = ''Owner'',
         rel_field_type = ''many2one'', target_model = Some ''user'',
         target_model_id = Some 5, edge_count = 3, unique_targets = 1,
         cascade_source = ''customer''\<rparr>]
   \<and> fst (updateKnowledgeGraph (test_env [] [] [] True) ''customer'' 3
       [[(''id'', JNum 1), (''country_id'', JNum 7), (''owner_id'', JArr [JNum 5, JStr ''Ann''])],
        [(''id'', JNum 2), (''country_id'', JNum 7)],
        [(''id'', JNum 3), (''country_id'', JNum 8)]]
       [fld 1 ''id'' ''ID'' ''integer'' None None,
        fld 3 ''country_id'' ''Country'' ''many2one'' (Some ''country'') (Some 4),
        fld 5 ''owner_id'' ''Owner'' ''many2one'' (Some ''user'') (Some 5),
        fld 6 ''agent_id'' ''Agent'' ''many2one'' (Some ''agent'') (Some 6),
        fld 7 ''ref_id'' ''Ref'' ''many2one'' None None] st_init) = 2
   \<and> fst (updateKnowledgeGraph (test_env [] [] [] False) ''customer'' 3
       [[(''id'', JNum 1), (''country_id'', JNum 7)]]
       [fld 3 ''country_id'' ''Country'' ''many2one'' (Some ''country'') (Some 4)] st_init) = 0
   \<and> fst (updateKnowledgeGraph mixed_env ''customer'' 3
       [[(''id'', JNum 1), (''country_id'', JNum 7), (''owner_id'', JArr [JNum 5, JStr ''Ann''])],
        [(''id'', JNum 2), (''country_id'', JNum 7)],
        [(''id'', JNum 3), (''country_id'', JNum 8)]]
       [fld 1 ''id'' ''ID'' ''integer'' None None,
        fld 3 ''country_id'' ''Country'' ''many2one'' (Some ''country'') (Some 4),
        fld 5 ''owner_id'' ''Owner'' ''many2one'' (Some ''user'') (Some 5),
        fld 6 ''agent_id'' ''Agent'' ''many2one'' (Some ''agent'') (Some 6),
        fld 7 ''ref_id'' ''Ref'' ''many2one'' None None] st_init) = 1
   \<and> map rel_field_name (fk_edges mixed_env ''customer'' 3
       [[(''id'', JNum 1), (''country_id'', JNum 7), (''owner_id'', JArr [JNum 5, JStr ''Ann''])],
        [(''id'', JNum 2), (''country_id'', JNum 7)],
        [(''id'', JNum 3), (''country_id'', JNum 8)]]
       [fld 1 ''id'' ''ID'' ''integer'' None None,
        fld 3 ''country_id'' ''Country'' ''many2one'' (Some ''country'') (Some 4),
        fld 5 ''owner_id'' ''Owner'' ''many2one'' (Some ''user'') (Some 5),
        fld 6 ''agent_id'' ''Agent'' ''many2one'' (Some ''agent'') (Some 6),
        fld 7 ''ref_id'' ''Ref'' ''many2one'' None None]) = [''country_id'', ''owner_id'']"
proof -
  let ?rs = "[[(''id'', JNum 1), (''country_id'', JNum 7), (''owner_id'', JArr [JNum 5, JStr ''Ann''])],
        [(''id'', JNum 2), (''country_id'', JNum 7)],
        [(''id'', JNum 3), (''country_id'', JNum 8)]]"
  let ?fs = "[fld 1 ''id'' ''ID'' ''integer'' None None,
        fld 3 ''country_id'' ''Country'' ''many2one'' (Some ''country'') (Some 4),
        fld 5 ''owner_id'' ''Owner'' ''many2one'' (Some ''user'') (Some 5),
        fld 6 ''agent_id'' ''Agent'' ''many2one'' (Some ''agent'') (Some 6),
        fld 7 ''ref_id'' ''Ref'' ''many2one'' None None]"
  have ok: "\<forall>rel w. \<not> isl (fst (upsertRelationship (test_env [] [] [] True) rel w))"
    by (simp add: test_env_sel)
  have bad: "\<forall>rel w. isl (fst (upsertRelationship (test_env [] [] [] False) rel w))"
    by (simp add: test_env_sel)
  have mix: "\<forall>rel w. isl (fst (upsertRelationship mixed_env rel w))
                        = (rel_field_name rel = ''country_id'')"
    by (simp add: mixed_env_sel)
  note T = graph_edges_per_fk_field
    [where env = "test_env [] [] [] True" and m = "''customer''" and mid = 3 and records = ?rs
       and fs = ?fs and st = st_init]
  note F = graph_edges_per_fk_field
    [where env = "test_env [] [] [] False" and m = "''customer''" and mid = 3
       and records = "[[(''id'', JNum 1), (''country_id'', JNum 7)]]"
       and fs = "[fld 3 ''country_id'' ''Country'' ''many2one'' (Some ''country'') (Some 4)]"
       and st = st_init]
  note M = graph_edges_per_fk_field
    [where env = mixed_env and m = "''customer''" and mid = 3 and records = ?rs
       and fs = ?fs and st = st_init and fails = "\<lambda>rel. rel_field_name rel = ''country_id''"]
  have fl: "filter (\<lambda>f. is_fk_field f \<and> resolved_ids (test_env [] [] [] True) f ?rs \<noteq> []) ?fs
        = [fld 3 ''country_id'' ''Country'' ''many2one'' (Some ''country'') (Some 4),
           fld 5 ''owner_id'' ''Owner'' ''many2one'' (Some ''user'') (Some 5)]"
    by (simp add: is_fk_field_def resolved_ids_def fixture_defs)
  have fm: "filter (\<lambda>f. is_fk_field f \<and> resolved_ids mixed_env f ?rs \<noteq> []) ?fs
        = [fld 3 ''country_id'' ''Country'' ''many2one'' (Some ''country'') (Some 4),
           fld 5 ''owner_id'' ''Owner'' ''many2one'' (Some ''user'') (Some 5)]"
    by (simp add: is_fk_field_def resolved_ids_def mixed_env_sel fixture_defs)
  have 1: "trace (snd (updateKnowledgeGraph (test_env [] [] [] True) ''customer'' 3 ?rs ?fs st_init)) =
     [Enter_updateKnowledgeGraph ''customer'',
      Call_upsertRelationship
        \<lparr>source_model = ''customer'', source_model_id = 3, rel_field_id = 3,
         rel_field_name = ''country_id'', rel_field_label = ''Country'',
         rel_field_type = ''many2one'', target_model = Some ''country'',
         target_model_id = Some 4, edge_count = 3, unique_targets = 2,
         cascade_source = ''customer''\<rparr>,
      Call_upsertRelationship
        \<lparr>source_model = ''customer'', source_model_id = 3, rel_field_id = 5,
         rel_field_name = ''owner_id'', rel_field_label = ''Owner'',
         rel_field_type = ''many2one'', target_model = Some ''user'',
         target_model_id = Some 5, edge_count = 3, unique_targets = 1,
         cascade_source = ''customer''\<rparr>]"
    using T [unfolded fl]
    by (simp add: expected_edge_def resolved_ids_def fixture_defs)
  have 2: "fst (updateKnowledgeGraph (test_env [] [] [] True) ''customer'' 3 ?rs ?fs st_init) = 2"
    using T [unfolded fl] ok by simp
  have 3: "fst (updateKnowledgeGraph (test_env [] [] [] False) ''customer'' 3
       [[(''id'', JNum 1), (''country_id'', JNum 7)]]
       [fld 3 ''country_id'' ''Country'' ''many2one'' (Some ''country'') (Some 4)] st_init) = 0"
    using F bad by blast
  have 5: "map rel_field_name (fk_edges mixed_env ''customer'' 3 ?rs ?fs) = [''country_id'', ''owner_id'']"
    unfolding fk_edges_def fm by (simp add: expected_edge_def fld_def)
  from M mix have "fst (updateKnowledgeGraph mixed_env ''customer'' 3 ?rs ?fs st_init)
      = length (filter (\<lambda>rel. \<not> rel_field_name rel = ''country_id'')
                  (fk_edges mixed_env ''customer'' 3 ?rs ?fs))"
    by blast
  then have 4: "fst (updateKnowledgeGraph mixed_env ''customer'' 3 ?rs ?fs st_init) = 1"
    unfolding fk_edges_def fm by (simp add: expected_edge_def fld_def)
  from 1 2 3 4 5 show ?thesis by blast
qed

section \<open>The semantic text\<close>

text \<open>
  Claim C6, as stated, fails in two ways. A many2one field whose value yields no FK id
  is rendered with \<^verbatim>\<open>String(value)\<close>, which is neither of the two forms of the claim:
  here the value is the string \<^verbatim>\<open>abc\<close>, from which the extractor gets no id. And a
  many2one field named \<^verbatim>\<open>id\<close> has no segment at all, whatever its value: here the value
  is 5, and the text ends after the record id.
\<close>

theorem semantic_text_counterexample:
  "generateSemanticText (test_env [] [] [] True)
     [(''id'', JNum 1), (''partner_id'', JStr ''abc'')] ''order''
     [fld 2 ''partner_id'' ''Partner'' ''many2one'' (Some ''partner'') (Some 9)]
     = ''In model order, record 1, Partner - abc''
   \<and> fkId (extractFkValueBySchema (test_env [] [] [] True)
              [(''id'', JNum 1), (''partner_id'', JStr ''abc'')]
              (descriptor_of (fld 2 ''partner_id'' ''Partner'' ''many2one'' (Some ''partner'') (Some 9))))
       = None
   \<and> generateSemanticText (test_env [] [] [] True)
     [(''id'', JNum 5)] ''order''
     [fld 1 ''id'' ''Parent'' ''many2one'' (Some ''order'') (Some 9)]
     = ''In model order, record 5''
   \<and> rec_get [(''id'', JNum 5)]
         (field_name (fld 1 ''id'' ''Parent'' ''many2one'' (Some ''order'') (Some 9))) = JNum 5"
  by (simp add: generateSemanticText_def displayValue_def Let_def fixture_defs show_simps)

text \<open>
  Claim C6, amended. The text is the model name, the record id and one segment for
  every schema field other than \<^verbatim>\<open>id\<close> whose value is not null, undefined or the
  empty string, in the schema's field order, joined by commas. The value of a field is
  what \<^verbatim>\<open>record[name]\<close> reads, a member inherited from \<^verbatim>\<open>Object.prototype\<close> included. A
  segment is the field's label (or its name, when the label is empty), a dash and the
  formatted value. For a many2one field the formatted value is the display name
  followed by the id in parentheses when the extractor yields an id and a non-empty
  display name, the id alone when it yields an id and no display name, and
  \<^verbatim>\<open>String(value)\<close> when it yields no id. An id that is a safe integer is printed as
  its decimal digits.
\<close>

theorem semantic_text_rendering:
  "generateSemanticText env r m fs =
     join '', '' ([''In model '' @ m,
                   ''record '' @ js_String (unsafeNumberToString env) (rec_get r ''id'')]
                  @ map (segment env r) (filter (rendered r) fs))
   \<and> (field_type f = ''many2one'' \<longrightarrow>
        displayValue env r f v =
          (case fkId (extractFkValueBySchema env r (descriptor_of f)) of
             Some n \<Rightarrow>
               (case displayName (extractFkValueBySchema env r (descriptor_of f)) of
                  Some d \<Rightarrow>
                    if d \<noteq> []
                    then d @ '' (id: '' @ number_to_string (unsafeNumberToString env) n @ '')''
                    else ''id: '' @ number_to_string (unsafeNumberToString env) n
                | None \<Rightarrow> ''id: '' @ number_to_string (unsafeNumberToString env) n)
           | None \<Rightarrow> js_String (unsafeNumberToString env) v))
   \<and> (- MAX_SAFE_INTEGER \<le> n \<and> n \<le> MAX_SAFE_INTEGER \<longrightarrow>
        number_to_string (unsafeNumberToString env) n = show_int n)"
proof -
  have "rendered r = (\<lambda>f. field_name f \<noteq> ''id'' \<and> rec_get r (field_name f) \<noteq> JNull
                          \<and> rec_get r (field_name f) \<noteq> JUndefined
                          \<and> rec_get r (field_name f) \<noteq> JStr [])"
    by (rule ext) (simp add: rendered_def)
  moreover have "segment env r =
      (\<lambda>f. label_or_name f @ '' - '' @ displayValue env r f (rec_get r (field_name f)))"
    by (rule ext) (simp add: segment_def)
  ultimately have 1: "generateSemanticText env r m fs =
     join '', '' ([''In model '' @ m,
                   ''record '' @ js_String (unsafeNumberToString env) (rec_get r ''id'')]
                  @ map (segment env r) (filter (rendered r) fs))"
    by (simp add: generateSemanticText_def semantic_parts_eq)
  have 2: "field_type f = ''many2one'' \<longrightarrow>
        displayValue env r f v =
          (case fkId (extractFkValueBySchema env r (descriptor_of f)) of
             Some n \<Rightarrow>
               (case displayName (extractFkValueBySchema env r (descriptor_of f)) of
                  Some d \<Rightarrow>
                    if d \<noteq> []
                    then d @ '' (id: '' @ number_to_string (unsafeNumberToString env) n @ '')''
                    else ''id: '' @ number_to_string (unsafeNumberToString env) n
                | None \<Rightarrow> ''id: '' @ number_to_string (unsafeNumberToString env) n)
           | None \<Rightarrow> js_String (unsafeNumberToString env) v)"
    by (simp add: displayValue_def Let_def truthy_string_def split: option.splits)
  have 3: "- MAX_SAFE_INTEGER \<le> n \<and> n \<le> MAX_SAFE_INTEGER \<longrightarrow>
        number_to_string (unsafeNumberToString env) n = show_int n"
    by (simp add: number_to_string_def)
  from 1 2 3 show ?thesis by blast
qed

text \<open>
  A record with a plain field, a tuple FK, a scalar FK, an empty string and a field
  named after a member of \<^verbatim>\<open>Object.prototype\<close>.
\<close>

theorem semantic_text_rendering_witness:
  "generateSemanticText (test_env [] [] [] True)
     [(''id'', JNum 2), (''name'', JStr ''Bob''), (''country_id'', JArr [JNum 8, JStr ''Peru'']),
      (''owner_id'', JNum 7), (''note'', JStr [])] ''customer''
     [fld 1 ''id'' ''ID'' ''integer'' None None,
      fld 2 ''name'' ''Name'' ''char'' None None,
      fld 3 ''country_id'' ''Country'' ''many2one'' (Some ''country'') (Some 4),
      fld 4 ''note'' ''Note'' ''char'' None None,
      fld 5 ''owner_id'' ''Owner'' ''many2one'' (Some ''user'') (Some 5),
      fld 6 ''constructor'' ''Built by'' ''char'' None None]
     = ''In model customer, record 2, Name - Bob, Country - Peru (id: 8), Owner - id: 7, '' @
       ''Built by - function Object() { [native code] }''
   \<and> displayValue (test_env [] [] [] True)
        [(''id'', JNum 2), (''country_id'', JArr [JNum 8, JStr ''Peru''])]
        (fld 3 ''country_id'' ''Country'' ''many2one'' (Some ''country'') (Some 4))
        (JArr [JNum 8, JStr ''Peru'']) = ''Peru (id: 8)''
   \<and> number_to_string (unsafeNumberToString (test_env [] [] [] True)) 8 = ''8''"
proof -
  let ?e = "test_env [] [] [] True"
  let ?f = "fld 3 ''country_id'' ''Country'' ''many2one'' (Some ''country'') (Some 4)"
  have m: "field_type ?f = ''many2one''" by (simp add: fld_def)
  have s: "- MAX_SAFE_INTEGER \<le> 8 \<and> 8 \<le> MAX_SAFE_INTEGER" by (simp add: MAX_SAFE_INTEGER_def)
  note T = semantic_text_rendering [where env = ?e and f = ?f and n = 8]
  from T [where r = "[(''id'', JNum 2), (''name'', JStr ''Bob''), (''country_id'', JArr [JNum 8, JStr ''Peru'']),
      (''owner_id'', JNum 7), (''note'', JStr [])]" and m = "''customer''" and fs = "[fld 1 ''id'' ''ID'' ''integer'' None None,
      fld 2 ''name'' ''Name'' ''char'' None None,
      fld 3 ''country_id'' ''Country'' ''many2one'' (Some ''country'') (Some 4),
      fld 4 ''note'' ''Note'' ''char'' None None,
      fld 5 ''owner_id'' ''Owner'' ''many2one'' (Some ''user'') (Some 5),
      fld 6 ''constructor'' ''Built by'' ''char'' None None]"]
  have 1: "generateSemanticText ?e
     [(''id'', JNum 2), (''name'', JStr ''Bob''), (''country_id'', JArr [JNum 8, JStr ''Peru'']),
      (''owner_id'', JNum 7), (''note'', JStr [])] ''customer''
     [fld 1 ''id'' ''ID'' ''integer'' None None,
      fld 2 ''name'' ''Name'' ''char'' None None,
      fld 3 ''country_id'' ''Country'' ''many2one'' (Some ''country'') (Some 4),
      fld 4 ''note'' ''Note'' ''char'' None None,
      fld 5 ''owner_id'' ''Owner'' ''many2one'' (Some ''user'') (Some 5),
      fld 6 ''constructor'' ''Built by'' ''char'' None None]
     = ''In model customer, record 2, Name - Bob, Country - Peru (id: 8), Owner - id: 7, '' @
       ''Built by - function Object() { [native code] }''"
    by (simp add: rendered_def segment_def displayValue_def Let_def fixture_defs show_simps)
  from m T [where r = "[(''id'', JNum 2), (''country_id'', JArr [JNum 8, JStr ''Peru''])]"
              and v = "JArr [JNum 8, JStr ''Peru'']"]
  have 2: "displayValue ?e [(''id'', JNum 2), (''country_id'', JArr [JNum 8, JStr ''Peru''])] ?f
             (JArr [JNum 8, JStr ''Peru'']) = ''Peru (id: 8)''"
    by (simp add: fixture_defs show_simps)
  from s T have 3: "number_to_string (unsafeNumberToString ?e) 8 = ''8''"
    by (simp add: show_simps)
  from 1 2 3 show ?thesis by blast
qed

section \<open>The record transformer\<close>

text \<open>
  Claim C7. Given the field list the schema returns for the model,
  \<^verbatim>\<open>transformRecords\<close> raises exactly when that list is missing or empty. Under a
  non-empty list it does not raise: it returns one transformed record for every input
  record whose \<^verbatim>\<open>id\<close> is truthy, in input order, and leaves out the others without
  reporting anything for them.
\<close>

theorem transform_raises_iff_no_schema:
  assumes "getModelFieldsFromSchema env m (world st) = (Inr fs, w1)"
  shows "(isl (fst (transformRecords env records m mid st)) \<longleftrightarrow> fs = None \<or> fs = Some [])
       \<and> (fs \<noteq> None \<and> fs \<noteq> Some [] \<longrightarrow>
            fst (transformRecords env records m mid st) =
              Inr (map (transform_one env m mid (the fs))
                     (filter (\<lambda>r. truthy (rec_get r ''id'')) records)))"
  using assms
  by (cases fs) (auto simp: transformRecords_def call_eq transform_loop_eq)

text \<open>
  Four records, of which one has no id and one has id 0; and a model without fields.
\<close>

theorem transform_raises_iff_no_schema_witness:
  "\<not> isl (fst (transformRecords
        (test_env [(''m'', 3, [fld 1 ''id'' ''ID'' ''integer'' None None,
                              fld 2 ''name'' ''Name'' ''char'' None None])] [] [] True)
        [[(''id'', JNum 1), (''name'', JStr ''Ann'')], [(''name'', JStr ''no id'')],
         [(''id'', JNum 0)], [(''id'', JNum 2)]] ''m'' 3 st_init))
   \<and> map record_id (projr (fst (transformRecords
        (test_env [(''m'', 3, [fld 1 ''id'' ''ID'' ''integer'' None None,
                              fld 2 ''name'' ''Name'' ''char'' None None])] [] [] True)
        [[(''id'', JNum 1), (''name'', JStr ''Ann'')], [(''name'', JStr ''no id'')],
         [(''id'', JNum 0)], [(''id'', JNum 2)]] ''m'' 3 st_init))) = [JNum 1, JNum 2]
   \<and> isl (fst (transformRecords (test_env [(''m'', 3, [])] [] [] True)
               [[(''id'', JNum 1)]] ''m'' 3 st_init))"
proof -
  let ?fs = "[fld 1 ''id'' ''ID'' ''integer'' None None, fld 2 ''name'' ''Name'' ''char'' None None]"
  let ?e = "test_env [(''m'', 3, ?fs)] [] [] True"
  let ?z = "test_env [(''m'', 3, [])] [] [] True"
  have a: "getModelFieldsFromSchema ?e ''m'' (world st_init) = (Inr (Some ?fs), 0)"
    by (simp add: test_env_def st_init_def)
  have b: "getModelFieldsFromSchema ?z ''m'' (world st_init) = (Inr (Some []), 0)"
    by (simp add: test_env_def st_init_def)
  have ne: "Some ?fs \<noteq> None \<and> Some ?fs \<noteq> Some []" by simp
  note A = transform_raises_iff_no_schema [OF a]
  note B = transform_raises_iff_no_schema [OF b]
  show ?thesis
    using A [where mid = 3 and
              records = "[[(''id'', JNum 1), (''name'', JStr ''Ann'')], [(''name'', JStr ''no id'')],
                          [(''id'', JNum 0)], [(''id'', JNum 2)]]"]
          B [where mid = 3 and records = "[[(''id'', JNum 1)]]"] ne
    by (simp add: rec_get_def object_prototype_def transform_one_def)
qed

section \<open>Dry run\<close>

text \<open>
  Claim C8. With \<open>dryRun\<close> set and at least one record loaded, \<^verbatim>\<open>syncExcelData\<close> returns
  a successful result whose \<open>records_read\<close> is the number of loaded records, with
  \<open>records_synced = 0\<close>, \<open>records_failed = 0\<close> and no errors. Its trace ends with the
  read of the data file: there is no transform, embedding, store, graph, index or
  cascade operation.
\<close>

theorem dry_run_short_circuit:
  assumes "modelExistsInSchema env m (world st0) = (Inr True, w1)"
      and "getModelIdFromSchema env m w1 = (Inr (Some i), w2)" and "i \<noteq> 0"
      and "existsSync env (data_file_path env m options) w2"
      and "readSheet env (data_file_path env m options) w2 = (Inr records, w3)"
      and "records \<noteq> []" and "dryRun options"
  shows "syncExcelData env m options st0 =
           (Inr \<lparr>success = True, res_model_name = m, res_model_id = i,
                 file_path = data_file_path env m options,
                 records_read = length records, records_synced = 0, records_failed = 0,
                 errors = [], cascaded_models = None\<rparr>,
            \<lparr>world = w3, trace = trace st0 @
               [Enter_syncExcelData m options, Call_modelExistsInSchema m,
                Call_getModelIdFromSchema m, Call_existsSync (data_file_path env m options),
                Call_readSheet (data_file_path env m options)]\<rparr>)"
  using assms
  by (subst syncExcelData.simps)
     (simp add: call_eq Let_def early_result_def truthy_id_def readExcelData_def)

text \<open>A dry run over a file of 40 records.\<close>

theorem dry_run_short_circuit_witness:
  "syncExcelData
     (test_env [(''m'', 3, [fld 1 ''id'' ''ID'' ''integer'' None None])]
        [(''samples/SAMPLE_m_data.xlsx'', replicate 40 [(''id'', JNum 1)])] [] True)
     ''m'' (default_options\<lparr>dryRun := True\<rparr>) st_init =
   (Inr \<lparr>success = True, res_model_name = ''m'', res_model_id = 3,
         file_path = ''samples/SAMPLE_m_data.xlsx'',
         records_read = 40, records_synced = 0, records_failed = 0,
         errors = [], cascaded_models = None\<rparr>,
    \<lparr>world = 0, trace =
       [Enter_syncExcelData ''m'' (default_options\<lparr>dryRun := True\<rparr>),
        Call_modelExistsInSchema ''m'', Call_getModelIdFromSchema ''m'',
        Call_existsSync ''samples/SAMPLE_m_data.xlsx'',
        Call_readSheet ''samples/SAMPLE_m_data.xlsx'']\<rparr>)"
proof -
  let ?e = "test_env [(''m'', 3, [fld 1 ''id'' ''ID'' ''integer'' None None])]
        [(''samples/SAMPLE_m_data.xlsx'', replicate 40 [(''id'', JNum 1)])] [] True"
  let ?o = "default_options\<lparr>dryRun := True\<rparr>"
  have p: "data_file_path ?e ''m'' ?o = ''samples/SAMPLE_m_data.xlsx''"
    by (simp add: data_file_path_def getDefaultDataFilePath_def test_env_def
          default_options_def truthy_string_def)
  have h: "modelExistsInSchema ?e ''m'' (world st_init) = (Inr True, 0)"
          "getModelIdFromSchema ?e ''m'' 0 = (Inr (Some 3), 0)" "(3::int) \<noteq> 0"
          "existsSync ?e (data_file_path ?e ''m'' ?o) 0"
          "readSheet ?e (data_file_path ?e ''m'' ?o) 0 = (Inr (replicate 40 [(''id'', JNum 1)]), 0)"
          "replicate 40 [(''id'', JNum 1)] \<noteq> []" "dryRun ?o"
    by (simp_all add: p) (simp_all add: test_env_def st_init_def)
  show ?thesis
    using dry_run_short_circuit [OF h] by (simp add: p st_init_def)
qed

section \<open>System fields and the record's payload\<close>

text \<open>
  Claim C9, as stated, fails in two ways. A raw field whose value is null is not copied
  into the payload (lines 214-216), so it overwrites nothing: here the raw
  \<^verbatim>\<open>model_name\<close> is null and the stored one is the model's name. And the derived FK
  entries are assigned after the raw ones (lines 220-240): here the many2one field
  \<^verbatim>\<open>record\<close> holds the scalar id 7, so the stored \<^verbatim>\<open>record_id\<close> is 7 and not the raw
  \<^verbatim>\<open>record_id\<close> 99.
\<close>

theorem payload_collision_counterexample:
  "point_payload
     (build_point (test_env [] [] [] True) 0 [[]] 0
        (transform_one (test_env [] [] [] True) ''customer'' 3
           [fld 1 ''id'' ''ID'' ''integer'' None None]
           [(''id'', JNum 1), (''model_name'', JNull)]))
     ''model_name'' = Some (JStr ''customer'')
   \<and> point_payload
     (build_point (test_env [] [] [] True) 0 [[]] 0
        (transform_one (test_env [] [] [] True) ''order'' 3
           [fld 1 ''id'' ''ID'' ''integer'' None None,
            fld 2 ''record'' ''Record'' ''many2one'' (Some ''document'') (Some 4)]
           [(''id'', JNum 1), (''record'', JNum 7), (''record_id'', JNum 99)]))
     ''record_id'' = Some (JNum 7)"
  by (simp add: build_point_def system_fields_def transform_one_def Let_def fixture_defs)

text \<open>
  Claim C9, amended. The payload of a stored point is the system fields overridden by
  the transformed record's payload: where the record's payload has a key, its value is
  stored, and the system field of that name is lost. A raw field named as one of the
  seven system keys, whose value is neither null nor undefined, is stored with its raw
  value unless the transformer derives an FK entry of that name. A raw field whose
  value is null or undefined is not copied: unless an FK entry of that name is
  derived, the system field stays. The derived entry \<^verbatim>\<open><field>_id\<close> of a many2one
  field with a scalar FK id is stored with that id, when no later field derives an
  entry of the same name.
\<close>

theorem payload_overrides_system_fields:
  "point_payload (build_point env w embeddings idx t) k =
     (case payload t k of
        Some v \<Rightarrow> Some v
      | None \<Rightarrow> system_fields (buildDataUuidV2 env (model_id t) (record_id t)) t (nowISO env w idx) k)
   \<and> (k \<in> set system_keys \<and> distinct (map fst r) \<and> (k, v) \<in> set r
        \<and> v \<noteq> JNull \<and> v \<noteq> JUndefined \<and> (\<forall>f \<in> set fs. \<not> writes_key env r f k)
      \<longrightarrow> point_payload (build_point env w embeddings idx (transform_one env m mid fs r)) k = Some v)
   \<and> ((\<forall>v. (k, v) \<in> set r \<longrightarrow> v = JNull \<or> v = JUndefined)
        \<and> (\<forall>f \<in> set fs. \<not> writes_key env r f k)
      \<longrightarrow> point_payload (build_point env w embeddings idx (transform_one env m mid fs r)) k
            = system_fields
                (buildDataUuidV2 env mid (rec_get r ''id''))
                (transform_one env m mid fs r) (nowISO env w idx) k)
   \<and> (field_type f = ''many2one'' \<and> truthy_id (fk_location_model_id f)
        \<and> fkId (extractFkValueBySchema env r (descriptor_of f)) = Some n
        \<and> source (extractFkValueBySchema env r (descriptor_of f)) = Scalar
        \<and> (\<forall>g \<in> set fsb. \<not> writes_key env r g (field_name f @ ''_id''))
      \<longrightarrow> point_payload
            (build_point env w embeddings idx (transform_one env m mid (fsa @ f # fsb) r))
            (field_name f @ ''_id'') = Some (JNum n))"
proof -
  have a: "point_payload (build_point env w embeddings idx t) k =
     (case payload t k of
        Some v \<Rightarrow> Some v
      | None \<Rightarrow> system_fields (buildDataUuidV2 env (model_id t) (record_id t)) t (nowISO env w idx) k)"
    for t k
    by (simp add: build_point_def Let_def map_add_def split: option.splits)
  have b: "point_payload (build_point env w embeddings idx (transform_one env m mid fs r)) k = Some v"
    if "k \<in> set system_keys" "distinct (map fst r)" "(k, v) \<in> set r" "v \<noteq> JNull" "v \<noteq> JUndefined"
       "\<forall>f \<in> set fs. \<not> writes_key env r f k"
  proof -
    from that(1) have "k \<noteq> ''__proto__''" by (auto simp: system_keys_def)
    with that have "payload (transform_one env m mid fs r) k = Some v"
      by (simp add: transform_one_def fk_entries_unwritten copy_entries_lookup)
    then show ?thesis by (simp add: a)
  qed
  have c: "point_payload (build_point env w embeddings idx (transform_one env m mid fs r)) k
            = system_fields
                (buildDataUuidV2 env mid (rec_get r ''id''))
                (transform_one env m mid fs r) (nowISO env w idx) k"
    if "\<forall>v. (k, v) \<in> set r \<longrightarrow> v = JNull \<or> v = JUndefined"
       "\<forall>f \<in> set fs. \<not> writes_key env r f k"
  proof -
    have "payload (transform_one env m mid fs r) k = None"
      using that by (simp add: transform_one_def fk_entries_unwritten copy_entries_skipped)
    then show ?thesis by (simp add: a) (simp add: transform_one_def)
  qed
  have d: "point_payload
            (build_point env w embeddings idx (transform_one env m mid (fsa @ f # fsb) r))
            (field_name f @ ''_id'') = Some (JNum n)"
    if "field_type f = ''many2one''" "truthy_id (fk_location_model_id f)"
       "fkId (extractFkValueBySchema env r (descriptor_of f)) = Some n"
       "source (extractFkValueBySchema env r (descriptor_of f)) = Scalar"
       "\<forall>g \<in> set fsb. \<not> writes_key env r g (field_name f @ ''_id'')"
  proof -
    have "payload (transform_one env m mid (fsa @ f # fsb) r) (field_name f @ ''_id'') = Some (JNum n)"
      using that by (simp add: transform_one_def fk_entries_last_id)
    then show ?thesis by (simp add: a)
  qed
  from a b c d show ?thesis by blast
qed

text \<open>
  A raw \<^verbatim>\<open>model_name\<close> that wins, a null \<^verbatim>\<open>point_id\<close> that leaves the system field, and
  a raw \<^verbatim>\<open>record_id\<close> that loses to the derived one.
\<close>

theorem payload_overrides_system_fields_witness:
  "point_payload
     (build_point (test_env [] [] [] True) 0 [[]] 0
        (transform_one (test_env [] [] [] True) ''customer'' 3
           [fld 1 ''id'' ''ID'' ''integer'' None None]
           [(''id'', JNum 1), (''model_name'', JStr ''intruder''), (''point_id'', JNull)]))
     ''model_name'' = Some (JStr ''intruder'')
   \<and> point_payload
     (build_point (test_env [] [] [] True) 0 [[]] 0
        (transform_one (test_env [] [] [] True) ''customer'' 3
           [fld 1 ''id'' ''ID'' ''integer'' None None]
           [(''id'', JNum 1), (''model_name'', JStr ''intruder''), (''point_id'', JNull)]))
     ''point_id'' = Some (JStr ''3-1'')
   \<and> point_payload
     (build_point (test_env [] [] [] True) 0 [[]] 0
        (transform_one (test_env [] [] [] True) ''order'' 3
           [fld 1 ''id'' ''ID'' ''integer'' None None,
            fld 2 ''record'' ''Record'' ''many2one'' (Some ''document'') (Some 4)]
           [(''id'', JNum 1), (''record'', JNum 7), (''record_id'', JNum 99)]))
     ''record_id'' = Some (JNum 7)"
proof -
  let ?e = "test_env [] [] [] True"
  let ?r = "[(''id'', JNum 1), (''model_name'', JStr ''intruder''), (''point_id'', JNull)]"
  let ?fs = "[fld 1 ''id'' ''ID'' ''integer'' None None]"
  let ?f = "fld 2 ''record'' ''Record'' ''many2one'' (Some ''document'') (Some 4)"
  let ?r2 = "[(''id'', JNum 1), (''record'', JNum 7), (''record_id'', JNum 99)]"
  have h: "''model_name'' \<in> set system_keys \<and> distinct (map fst ?r)
        \<and> (''model_name'', JStr ''intruder'') \<in> set ?r
        \<and> JStr ''intruder'' \<noteq> JNull \<and> JStr ''intruder'' \<noteq> JUndefined
        \<and> (\<forall>f \<in> set ?fs. \<not> writes_key ?e ?r f ''model_name'')"
    by (simp add: fld_def system_keys_def writes_key_def)
  have g: "(\<forall>v. (''point_id'', v) \<in> set ?r \<longrightarrow> v = JNull \<or> v = JUndefined)
        \<and> (\<forall>f \<in> set ?fs. \<not> writes_key ?e ?r f ''point_id'')"
    by (simp add: fld_def writes_key_def)
  have i: "field_type ?f = ''many2one'' \<and> truthy_id (fk_location_model_id ?f)
        \<and> fkId (extractFkValueBySchema ?e ?r2 (descriptor_of ?f)) = Some 7
        \<and> source (extractFkValueBySchema ?e ?r2 (descriptor_of ?f)) = Scalar
        \<and> (\<forall>g \<in> set ([] :: pipeline_field list). \<not> writes_key ?e ?r2 g (field_name ?f @ ''_id''))"
    by (simp add: fixture_defs)
  from h payload_overrides_system_fields
         [where env = ?e and r = ?r and k = "''model_name''"
            and v = "JStr ''intruder''" and fs = ?fs and w = 0 and embeddings = "[[]]"
            and idx = 0 and m = "''customer''" and mid = 3]
  have 1: "point_payload
     (build_point ?e 0 [[]] 0 (transform_one ?e ''customer'' 3 ?fs ?r))
     ''model_name'' = Some (JStr ''intruder'')"
    by blast
  from g payload_overrides_system_fields
         [where env = ?e and r = ?r and k = "''point_id''"
            and fs = ?fs and w = 0 and embeddings = "[[]]"
            and idx = 0 and m = "''customer''" and mid = 3]
  have "point_payload
     (build_point ?e 0 [[]] 0 (transform_one ?e ''customer'' 3 ?fs ?r)) ''point_id''
     = system_fields (buildDataUuidV2 ?e 3 (rec_get ?r ''id''))
         (transform_one ?e ''customer'' 3 ?fs ?r) (nowISO ?e 0 0) ''point_id''"
    by blast
  then have 2: "point_payload
     (build_point ?e 0 [[]] 0 (transform_one ?e ''customer'' 3 ?fs ?r)) ''point_id''
     = Some (JStr ''3-1'')"
    by (simp add: system_fields_def fixture_defs show_simps)
  from i payload_overrides_system_fields
         [where env = ?e and r = ?r2 and f = ?f and n = 7 and fsa = "[fld 1 ''id'' ''ID'' ''integer'' None None]"
            and fsb = "[]" and w = 0 and embeddings = "[[]]"
            and idx = 0 and m = "''order''" and mid = 3]
  have "point_payload
     (build_point ?e 0 [[]] 0 (transform_one ?e ''order'' 3
         ([fld 1 ''id'' ''ID'' ''integer'' None None] @ ?f # []) ?r2))
     (field_name ?f @ ''_id'') = Some (JNum 7)"
    by blast
  then have 3: "point_payload
     (build_point ?e 0 [[]] 0 (transform_one ?e ''order'' 3
         [fld 1 ''id'' ''ID'' ''integer'' None None, ?f] ?r2))
     ''record_id'' = Some (JNum 7)"
    by (simp add: fld_def)
  from 1 2 3 show ?thesis by blast
qed

section \<open>An empty schema under a loaded file\<close>

text \<open>
  Claim C10. When the model exists, its id is resolved, a non-empty file is loaded and
  the call is not a dry run, but the schema returns an empty field list, the error
  raised in \<^verbatim>\<open>transformRecords\<close> leaves \<^verbatim>\<open>syncExcelData\<close> as an exception: the call
  throws and returns no result.
\<close>

theorem empty_schema_throws:
  assumes "modelExistsInSchema env m (world st0) = (Inr True, w1)"
      and "getModelIdFromSchema env m w1 = (Inr (Some i), w2)" and "i \<noteq> 0"
      and "existsSync env (data_file_path env m options) w2"
      and "readSheet env (data_file_path env m options) w2 = (Inr records, w3)"
      and "records \<noteq> []" and "\<not> dryRun options"
      and "getModelFieldsFromSchema env m w3 = (Inr (Some []), w4)"
  shows "syncExcelData env m options st0 =
           (Inl (''No schema fields found for model: '' @ m),
            \<lparr>world = w4, trace = trace st0 @
               [Enter_syncExcelData m options, Call_modelExistsInSchema m,
                Call_getModelIdFromSchema m, Call_existsSync (data_file_path env m options),
                Call_readSheet (data_file_path env m options),
                Enter_transformRecords m, Call_getModelFieldsFromSchema m]\<rparr>)"
  using assms
  by (subst syncExcelData.simps)
     (simp add: call_eq Let_def truthy_id_def readExcelData_def transformRecords_def)

text \<open>A model with no fields and a file of one record.\<close>

theorem empty_schema_throws_witness:
  "syncExcelData
     (test_env [(''m'', 3, [])] [(''samples/SAMPLE_m_data.xlsx'', [[(''id'', JNum 1)]])] [] True)
     ''m'' default_options st_init =
   (Inl ''No schema fields found for model: m'',
    \<lparr>world = 0, trace =
       [Enter_syncExcelData ''m'' default_options,
        Call_modelExistsInSchema ''m'', Call_getModelIdFromSchema ''m'',
        Call_existsSync ''samples/SAMPLE_m_data.xlsx'',
        Call_readSheet ''samples/SAMPLE_m_data.xlsx'',
        Enter_transformRecords ''m'', Call_getModelFieldsFromSchema ''m'']\<rparr>)"
proof -
  let ?e = "test_env [(''m'', 3, [])] [(''samples/SAMPLE_m_data.xlsx'', [[(''id'', JNum 1)]])] [] True"
  have p: "data_file_path ?e ''m'' default_options = ''samples/SAMPLE_m_data.xlsx''"
    by (simp add: data_file_path_def getDefaultDataFilePath_def test_env_def
          default_options_def truthy_string_def)
  have h: "modelExistsInSchema ?e ''m'' (world st_init) = (Inr True, 0)"
          "getModelIdFromSchema ?e ''m'' 0 = (Inr (Some 3), 0)" "(3::int) \<noteq> 0"
          "existsSync ?e (data_file_path ?e ''m'' default_options) 0"
          "readSheet ?e (data_file_path ?e ''m'' default_options) 0 = (Inr [[(''id'', JNum 1)]], 0)"
          "[[(''id'', JNum 1)]] \<noteq> []" "\<not> dryRun default_options"
          "getModelFieldsFromSchema ?e ''m'' 0 = (Inr (Some []), 0)"
    by (simp_all add: p) (simp_all add: test_env_def st_init_def default_options_def)
  show ?thesis
    using empty_schema_throws [OF h] by (simp add: p st_init_def)
qed


end
